theory Spec2Isabelle
  imports Complex_Main "HOL-Library.Sublist"
begin

section \<open>Python values and errors\<close>

text \<open>
  The exceptions that the modelled part of \<^verbatim>\<open>svg_to_juce.py\<close> can raise. A function
  that can raise returns \<open>py_error + 'a\<close>, with \<open>Inl\<close> for the exception.
\<close>

datatype py_error =
    ValueError
  | AttributeError
  | TypeError
  | ZeroDivisionError
  | ParseError
  | JSONDecodeError
  | FileNotFoundError
  | OverflowError

text \<open>
  What \<^verbatim>\<open>json.load\<close> returns and \<^verbatim>\<open>json.dump\<close> accepts. A Python \<^verbatim>\<open>dict\<close> is the list of
  its items in insertion order; its keys are pairwise distinct. A number of the file or of
  the drawing is a finite value, a \<open>real\<close>.
\<close>

datatype json =
    JNull
  | JBool bool
  | JInt int
  | JFloat real
  | JStr string
  | JArr "json list"
  | JObj "(string \<times> json) list"

text \<open>\<^verbatim>\<open>bool(v)\<close>: the truth value that \<^verbatim>\<open>if not v\<close> tests.\<close>

fun truthy :: "json \<Rightarrow> bool" where
  "truthy JNull = False"
| "truthy (JBool b) = b"
| "truthy (JInt i) = (i \<noteq> 0)"
| "truthy (JFloat r) = (r \<noteq> 0)"
| "truthy (JStr s) = (s \<noteq> [])"
| "truthy (JArr xs) = (xs \<noteq> [])"
| "truthy (JObj kvs) = (kvs \<noteq> [])"

text \<open>\<^verbatim>\<open>d.get(k)\<close>: only a \<^verbatim>\<open>dict\<close> has the method.\<close>

fun py_get :: "json \<Rightarrow> string \<Rightarrow> py_error + json option" where
  "py_get (JObj kvs) k = Inr (map_of kvs k)"
| "py_get _ k = Inl AttributeError"

text \<open>\<^verbatim>\<open>d.get(k, default)\<close>.\<close>

definition py_get_default :: "json \<Rightarrow> string \<Rightarrow> json \<Rightarrow> py_error + json" where
  "py_get_default d k dflt =
     (case py_get d k of
        Inl e \<Rightarrow> Inl e
      | Inr None \<Rightarrow> Inr dflt
      | Inr (Some v) \<Rightarrow> Inr v)"

text \<open>
  \<^verbatim>\<open>k in d\<close> for a string \<open>k\<close>: key membership in a \<^verbatim>\<open>dict\<close>, element membership in a
  \<^verbatim>\<open>list\<close>, substring test in a \<^verbatim>\<open>str\<close>, \<^verbatim>\<open>TypeError\<close> otherwise.
\<close>

fun py_in :: "string \<Rightarrow> json \<Rightarrow> py_error + bool" where
  "py_in k (JObj kvs) = Inr (k \<in> set (map fst kvs))"
| "py_in k (JArr xs) = Inr (JStr k \<in> set xs)"
| "py_in k (JStr s) = Inr (sublist k s)"
| "py_in k _ = Inl TypeError"

text \<open>\<^verbatim>\<open>d.items()\<close>.\<close>

fun py_items :: "json \<Rightarrow> py_error + (string \<times> json) list" where
  "py_items (JObj kvs) = Inr kvs"
| "py_items _ = Inl AttributeError"

text \<open>
  \<^verbatim>\<open>round(v)\<close> on a \<^verbatim>\<open>float\<close>: the nearest integer, a tie going to the even neighbour.
\<close>

definition py_round :: "real \<Rightarrow> int" where
  "py_round v =
     (let f = \<lfloor>v\<rfloor>; d = v - of_int f
      in if d < 1 / 2 then f
         else if 1 / 2 < d then f + 1
         else if even f then f else f + 1)"

text \<open>
  The values of a \<^verbatim>\<open>float\<close> that arithmetic can produce, for the one place where the
  program computes with positions (the distance of the overlap check): a finite number, an
  infinity, or not-a-number. A parsed position is a finite value and stays a \<open>real\<close>.
\<close>

datatype pyfloat = Finite real | PosInf | NegInf | NaN

text \<open>\<^verbatim>\<open>abs(v)\<close> and \<^verbatim>\<open>v < t\<close> are exact on these values.\<close>

fun py_abs :: "pyfloat \<Rightarrow> pyfloat" where
  "py_abs (Finite r) = Finite \<bar>r\<bar>"
| "py_abs PosInf = PosInf"
| "py_abs NegInf = PosInf"
| "py_abs NaN = NaN"

fun py_lt :: "pyfloat \<Rightarrow> real \<Rightarrow> bool" where
  "py_lt (Finite r) t = (r < t)"
| "py_lt PosInf t = False"
| "py_lt NegInf t = True"
| "py_lt NaN t = False"

text \<open>
  The float operations of that computation are parameters, as the builtin \<^verbatim>\<open>float\<close> is:
  \<open>f_sub\<close> is \<^verbatim>\<open>x - y\<close> on two positions, \<open>f_add\<close> is \<^verbatim>\<open>u + v\<close>, \<open>f_pow\<close> is \<^verbatim>\<open>u ** p\<close>.
  Their results are rounded by the machine, a subtraction or an addition can overflow to an
  infinity, and \<^verbatim>\<open>**\<close> raises \<^verbatim>\<open>OverflowError\<close> when its result is out of range; the
  model fixes none of this.
\<close>

record float_ops =
  f_sub :: "real \<Rightarrow> real \<Rightarrow> pyfloat"
  f_add :: "pyfloat \<Rightarrow> pyfloat \<Rightarrow> pyfloat"
  f_pow :: "pyfloat \<Rightarrow> real \<Rightarrow> py_error + pyfloat"

section \<open>The drawing: \<^verbatim>\<open>xml.etree.ElementTree\<close>\<close>

text \<open>
  An element has a tag, an attribute dictionary and children. \<^verbatim>\<open>root.iter()\<close> visits the
  element itself and its descendants in document order; \<^verbatim>\<open>root.iter(tag)\<close> keeps the
  elements with that tag.
\<close>

datatype element = Element (tag: string) (attrib: "(string \<times> string) list") (children: "element list")

fun iter_all :: "element \<Rightarrow> element list" where
  "iter_all (Element t a cs) = Element t a cs # concat (map iter_all cs)"

definition iter :: "string \<Rightarrow> element \<Rightarrow> element list" where
  "iter tg e = filter (\<lambda>el. tag el = tg) (iter_all e)"

text \<open>\<^verbatim>\<open>element.get(key)\<close> and \<^verbatim>\<open>element.get(key, '')\<close>.\<close>

definition get_attr :: "element \<Rightarrow> string \<Rightarrow> string option" where
  "get_attr e k = map_of (attrib e) k"

definition get_str :: "element \<Rightarrow> string \<Rightarrow> string" where
  "get_str e k = (case get_attr e k of None \<Rightarrow> [] | Some v \<Rightarrow> v)"

text \<open>
  \<^verbatim>\<open>float(element.get(key, 0))\<close>. The builtin \<^verbatim>\<open>float\<close> on a string is the parameter
  \<open>pf\<close>: \<open>None\<close> where Python raises \<^verbatim>\<open>ValueError\<close>. A missing attribute gives
  \<^verbatim>\<open>float(0)\<close>.
\<close>

definition get_float :: "(string \<Rightarrow> real option) \<Rightarrow> element \<Rightarrow> string \<Rightarrow> py_error + real" where
  "get_float pf e k =
     (case get_attr e k of
        None \<Rightarrow> Inr 0
      | Some s \<Rightarrow> (case pf s of None \<Rightarrow> Inl ValueError | Some v \<Rightarrow> Inr v))"

section \<open>\<^verbatim>\<open>SVGComponent\<close> and \<^verbatim>\<open>SVGParser\<close>\<close>

record SVGComponent =
  c_id :: string
  c_type :: string
  c_x :: real
  c_y :: real
  c_width :: real
  c_height :: real
  c_radius :: real
  c_label :: string
  c_section :: string

definition svg_circle :: string where
  "svg_circle = ''{http://www.w3.org/2000/svg}circle''"

definition svg_rect :: string where
  "svg_rect = ''{http://www.w3.org/2000/svg}rect''"

definition svg_g :: string where
  "svg_g = ''{http://www.w3.org/2000/svg}g''"

definition inkscape_label :: string where
  "inkscape_label = ''{http://www.inkscape.org/namespaces/inkscape}label''"

text \<open>\<^verbatim>\<open>element_id.startswith(('grain_particle', 'midi_dot', 'kbd_key'))\<close>.\<close>

definition decorative :: "string \<Rightarrow> bool" where
  "decorative element_id \<longleftrightarrow>
     prefix ''grain_particle'' element_id \<or> prefix ''midi_dot'' element_id
     \<or> prefix ''kbd_key'' element_id"

definition skip_ids :: "string list" where
  "skip_ids = [''panel_background'', ''header_bg'', ''waveform_path'']"

definition parse_circle :: "(string \<Rightarrow> real option) \<Rightarrow> element \<Rightarrow> py_error + SVGComponent option" where
  "parse_circle pf e =
     (let element_id = get_str e ''id'' in
      if element_id = [] \<or> decorative element_id then Inr None
      else
        (case get_float pf e ''cx'' of Inl err \<Rightarrow> Inl err | Inr cx \<Rightarrow>
        (case get_float pf e ''cy'' of Inl err \<Rightarrow> Inl err | Inr cy \<Rightarrow>
        (case get_float pf e ''r'' of Inl err \<Rightarrow> Inl err | Inr r \<Rightarrow>
          Inr (Some \<lparr>c_id = element_id, c_type = ''circle'', c_x = cx, c_y = cy,
                     c_width = 0, c_height = 0, c_radius = r, c_label = [], c_section = []\<rparr>)))))"

definition parse_rect :: "(string \<Rightarrow> real option) \<Rightarrow> element \<Rightarrow> py_error + SVGComponent option" where
  "parse_rect pf e =
     (let element_id = get_str e ''id'' in
      if element_id = [] \<or> suffix ''_border'' element_id \<or> element_id \<in> set skip_ids
      then Inr None
      else
        (case get_float pf e ''x'' of Inl err \<Rightarrow> Inl err | Inr x \<Rightarrow>
        (case get_float pf e ''y'' of Inl err \<Rightarrow> Inl err | Inr y \<Rightarrow>
        (case get_float pf e ''width'' of Inl err \<Rightarrow> Inl err | Inr w \<Rightarrow>
        (case get_float pf e ''height'' of Inl err \<Rightarrow> Inl err | Inr h \<Rightarrow>
          Inr (Some \<lparr>c_id = element_id, c_type = ''rect'', c_x = x, c_y = y,
                     c_width = w, c_height = h, c_radius = 0, c_label = [], c_section = []\<rparr>))))))"

text \<open>
  The two loops of \<^verbatim>\<open>parse\<close>: each element is parsed in turn and a record that is not
  \<^verbatim>\<open>None\<close> is appended to \<^verbatim>\<open>self.components\<close>; an exception ends the pass.
\<close>

fun parse_loop ::
  "(element \<Rightarrow> py_error + SVGComponent option) \<Rightarrow> element list \<Rightarrow> SVGComponent list
   \<Rightarrow> py_error + SVGComponent list" where
  "parse_loop f [] components = Inr components"
| "parse_loop f (e # es) components =
     (case f e of
        Inl err \<Rightarrow> Inl err
      | Inr None \<Rightarrow> parse_loop f es components
      | Inr (Some c) \<Rightarrow> parse_loop f es (components @ [c]))"

text \<open>
  \<^verbatim>\<open>_assign_sections\<close>: for every group with a non-empty label, in document order, every
  component whose identifier is the \<^verbatim>\<open>id\<close> of an element of the group gets the label.
\<close>

definition in_group :: "element \<Rightarrow> SVGComponent \<Rightarrow> bool" where
  "in_group grp c \<longleftrightarrow> (\<exists>elem \<in> set (iter_all grp). get_attr elem ''id'' = Some (c_id c))"

definition assign_group :: "element \<Rightarrow> SVGComponent list \<Rightarrow> SVGComponent list" where
  "assign_group grp components =
     (let section_label = get_str grp inkscape_label in
      if section_label = [] then components
      else map (\<lambda>c. if in_group grp c then c\<lparr>c_section := section_label\<rparr> else c)
             components)"

definition assign_sections :: "element \<Rightarrow> SVGComponent list \<Rightarrow> SVGComponent list" where
  "assign_sections doc components = foldl (\<lambda>cs grp. assign_group grp cs) components (iter svg_g doc)"

definition parse :: "(string \<Rightarrow> real option) \<Rightarrow> element \<Rightarrow> py_error + SVGComponent list" where
  "parse pf doc =
     (case parse_loop (parse_circle pf) (iter svg_circle doc) [] of
        Inl err \<Rightarrow> Inl err
      | Inr circles \<Rightarrow>
          (case parse_loop (parse_rect pf) (iter svg_rect doc) circles of
             Inl err \<Rightarrow> Inl err
           | Inr components \<Rightarrow> Inr (assign_sections doc components)))"

section \<open>The files and the terminal\<close>

text \<open>
  A file is represented by the document it holds: \<open>XmlFile e\<close> is a well-formed XML text
  with the element tree \<open>e\<close> (what \<^verbatim>\<open>ET.parse\<close> reads), \<open>JsonFile v\<close> is a JSON text of the
  value \<open>v\<close> (what \<^verbatim>\<open>json.dump(v, f)\<close> writes and \<^verbatim>\<open>json.load(f)\<close> reads), \<open>TextFile s\<close> is any
  other text. Directories and access rights are not modelled.
\<close>

datatype file_doc = XmlFile element | JsonFile json | TextFile string

text \<open>One constructor for each \<^verbatim>\<open>print\<close> statement (or block of them) of the program.\<close>

datatype message =
    ErrSvgNotFound string
  | ErrNoMapping
  | Parsing string
  | Found nat
  | GeneratedMapping string
  | PleaseReview
  | WarnUnmapped "string list"
  | WarnUnknownType "string list"
  | WarnOverlaps "(string \<times> string \<times> pyfloat) list"
  | WarnOutOfBounds "string list"
  | ValidationPassed
  | ValidationComplete nat
  | GeneratingSnippets
  | DryRunPreview string string string
  | Generated string
  | GenerationComplete

record world =
  files :: "string \<Rightarrow> file_doc option"
  stdout :: "message list"

definition say :: "message \<Rightarrow> world \<Rightarrow> world" where
  "say msg w = w\<lparr>stdout := stdout w @ [msg]\<rparr>"

definition write_file :: "string \<Rightarrow> file_doc \<Rightarrow> world \<Rightarrow> world" where
  "write_file path f w = w\<lparr>files := (files w)(path \<mapsto> f)\<rparr>"

section \<open>\<^verbatim>\<open>ComponentMapper\<close>\<close>

record ComponentMapper =
  mapping_file :: string
  mapping :: json
  config :: json

definition ComponentMapper_init :: "string \<Rightarrow> ComponentMapper" where
  "ComponentMapper_init path = \<lparr>mapping_file = path, mapping = JObj [], config = JObj []\<rparr>"

text \<open>
  \<^verbatim>\<open>load\<close>: nothing happens when the file does not exist; otherwise both fields are
  replaced by what the file holds under \<^verbatim>\<open>'config'\<close> and \<^verbatim>\<open>'components'\<close>.
\<close>

definition load :: "world \<Rightarrow> ComponentMapper \<Rightarrow> py_error + ComponentMapper" where
  "load w m =
     (case files w (mapping_file m) of
        None \<Rightarrow> Inr m
      | Some (JsonFile data) \<Rightarrow>
          (case py_get_default data ''config'' (JObj []) of
             Inl err \<Rightarrow> Inl err
           | Inr cfg \<Rightarrow>
               (case py_get_default data ''components'' (JObj []) of
                  Inl err \<Rightarrow> Inl err
                | Inr comps \<Rightarrow> Inr (m\<lparr>config := cfg, mapping := comps\<rparr>)))
      | Some _ \<Rightarrow> Inl JSONDecodeError)"

definition save :: "ComponentMapper \<Rightarrow> world \<Rightarrow> world" where
  "save m w =
     write_file (mapping_file m)
       (JsonFile (JObj [(''config'', config m), (''components'', mapping m)])) w"

definition get_component_info :: "ComponentMapper \<Rightarrow> string \<Rightarrow> py_error + json option" where
  "get_component_info m svg_id = py_get (mapping m) svg_id"

section \<open>\<^verbatim>\<open>CoordinateConverter\<close>\<close>

record CoordinateConverter =
  svg_width_mm :: real
  svg_height_mm :: real
  juce_width_px :: int
  juce_height_px :: int
  scale_x :: real
  scale_y :: real

text \<open>
  The constructor divides: a zero physical dimension raises \<^verbatim>\<open>ZeroDivisionError\<close>. The
  quotients of the constructor and the products of the two conversions are taken exactly.
\<close>

definition CoordinateConverter_init :: "real \<Rightarrow> real \<Rightarrow> int \<Rightarrow> int \<Rightarrow> py_error + CoordinateConverter" where
  "CoordinateConverter_init w_mm h_mm w_px h_px =
     (if w_mm = 0 then Inl ZeroDivisionError
      else if h_mm = 0 then Inl ZeroDivisionError
      else Inr \<lparr>svg_width_mm = w_mm, svg_height_mm = h_mm,
                 juce_width_px = w_px, juce_height_px = h_px,
                 scale_x = of_int w_px / w_mm, scale_y = of_int h_px / h_mm\<rparr>)"

definition to_juce :: "CoordinateConverter \<Rightarrow> real \<Rightarrow> real \<Rightarrow> int \<times> int" where
  "to_juce cv x_mm y_mm = (py_round (x_mm * scale_x cv), py_round (y_mm * scale_y cv))"

definition size_to_juce :: "CoordinateConverter \<Rightarrow> real \<Rightarrow> real \<Rightarrow> int \<times> int" where
  "size_to_juce cv width_mm height_mm =
     (py_round (width_mm * scale_x cv), py_round (height_mm * scale_y cv))"

section \<open>\<^verbatim>\<open>SVGToJUCEConverter\<close>\<close>

record SVGParser =
  p_svg_path :: string
  p_doc :: element

text \<open>\<^verbatim>\<open>SVGParser.__init__\<close> reads the drawing with \<^verbatim>\<open>ET.parse\<close>.\<close>

definition SVGParser_init :: "string \<Rightarrow> world \<Rightarrow> py_error + SVGParser" where
  "SVGParser_init path w =
     (case files w path of
        None \<Rightarrow> Inl FileNotFoundError
      | Some (XmlFile e) \<Rightarrow> Inr \<lparr>p_svg_path = path, p_doc = e\<rparr>
      | Some _ \<Rightarrow> Inl ParseError)"

record SVGToJUCEConverter =
  svg_path :: string
  mapping_path :: string
  output_dir :: string
  parser :: SVGParser
  mapper :: ComponentMapper
  converter :: CoordinateConverter

text \<open>The constructor builds the converter with its default dimensions.\<close>

definition SVGToJUCEConverter_init ::
  "string \<Rightarrow> string \<Rightarrow> string \<Rightarrow> world \<Rightarrow> py_error + SVGToJUCEConverter" where
  "SVGToJUCEConverter_init svg mp out w =
     (case SVGParser_init svg w of
        Inl err \<Rightarrow> Inl err
      | Inr p \<Rightarrow>
          (case CoordinateConverter_init 225 190 850 720 of
             Inl err \<Rightarrow> Inl err
           | Inr cv \<Rightarrow>
               Inr \<lparr>svg_path = svg, mapping_path = mp, output_dir = out,
                    parser = p, mapper = ComponentMapper_init mp, converter = cv\<rparr>))"

subsection \<open>\<^verbatim>\<open>init_mapping\<close>\<close>

text \<open>\<^verbatim>\<open>d[k] = v\<close> on a \<^verbatim>\<open>dict\<close>: an existing key keeps its place.\<close>

fun dict_set :: "(string \<times> json) list \<Rightarrow> string \<Rightarrow> json \<Rightarrow> (string \<times> json) list" where
  "dict_set [] k v = [(k, v)]"
| "dict_set ((k', v') # kvs) k v =
     (if k' = k then (k, v) # kvs else (k', v') # dict_set kvs k v)"

text \<open>
  The loop of \<^verbatim>\<open>init_mapping\<close>. The entry built for a component (detected type, suggested
  member name, label and parameter identifier) is the parameter \<open>suggest\<close>.
\<close>

fun init_loop ::
  "(SVGComponent \<Rightarrow> json) \<Rightarrow> json \<Rightarrow> SVGComponent list \<Rightarrow> (string \<times> json) list
   \<Rightarrow> py_error + (string \<times> json) list" where
  "init_loop suggest m [] acc = Inr acc"
| "init_loop suggest m (c # cs) acc =
     (case py_in (c_id c) m of
        Inl err \<Rightarrow> Inl err
      | Inr True \<Rightarrow> init_loop suggest m cs acc
      | Inr False \<Rightarrow> init_loop suggest m cs (dict_set acc (c_id c) (suggest c)))"

definition default_config :: json where
  "default_config =
     JObj [(''svg_width_mm'', JInt 225), (''svg_height_mm'', JInt 190),
           (''juce_width_px'', JInt 850), (''juce_height_px'', JInt 720)]"

definition init_mapping ::
  "(string \<Rightarrow> real option) \<Rightarrow> (SVGComponent \<Rightarrow> json) \<Rightarrow> SVGToJUCEConverter \<Rightarrow> world
   \<Rightarrow> (py_error + unit) \<times> world" where
  "init_mapping pf suggest conv w =
     (let w1 = say (Parsing (svg_path conv)) w in
      case parse pf (p_doc (parser conv)) of
        Inl err \<Rightarrow> (Inl err, w1)
      | Inr components \<Rightarrow>
          (let w2 = say (Found (length components)) w1 in
           case init_loop suggest (mapping (mapper conv)) components [] of
             Inl err \<Rightarrow> (Inl err, w2)
           | Inr new_mapping \<Rightarrow>
               (let m = (mapper conv)\<lparr>config := default_config, mapping := JObj new_mapping\<rparr>;
                    w3 = save m w2
                in (Inr (), say PleaseReview (say (GeneratedMapping (mapping_path conv)) w3)))))"

subsection \<open>\<^verbatim>\<open>validate\<close>\<close>

text \<open>The loop that collects the unmapped identifiers.\<close>

fun unmapped_loop :: "json \<Rightarrow> SVGComponent list \<Rightarrow> string list \<Rightarrow> py_error + string list" where
  "unmapped_loop m [] unmapped = Inr unmapped"
| "unmapped_loop m (c # cs) unmapped =
     (case py_in (c_id c) m of
        Inl err \<Rightarrow> Inl err
      | Inr True \<Rightarrow> unmapped_loop m cs unmapped
      | Inr False \<Rightarrow> unmapped_loop m cs (unmapped @ [c_id c]))"

text \<open>The loop over the mapping's items that collects the entries of type \<^verbatim>\<open>'Unknown'\<close>.\<close>

fun unknown_loop :: "(string \<times> json) list \<Rightarrow> string list \<Rightarrow> py_error + string list" where
  "unknown_loop [] unknown_type = Inr unknown_type"
| "unknown_loop ((comp_id, info) # rest) unknown_type =
     (case py_get info ''type'' of
        Inl err \<Rightarrow> Inl err
      | Inr t \<Rightarrow>
          unknown_loop rest
            (if t = Some (JStr ''Unknown'') then unknown_type @ [comp_id] else unknown_type))"

text \<open>
  The guard of both overlap loops:
  \<^verbatim>\<open>not info or info.get('type') in ['ModButton', 'Indicator', 'Unknown']\<close>.
\<close>

definition no_layout_types :: "string list" where
  "no_layout_types = [''ModButton'', ''Indicator'', ''Unknown'']"

definition skip_overlap :: "ComponentMapper \<Rightarrow> SVGComponent \<Rightarrow> py_error + bool" where
  "skip_overlap m c =
     (case get_component_info m (c_id c) of
        Inl err \<Rightarrow> Inl err
      | Inr None \<Rightarrow> Inr True
      | Inr (Some info) \<Rightarrow>
          if \<not> truthy info then Inr True
          else (case py_get info ''type'' of
                  Inl err \<Rightarrow> Inl err
                | Inr (Some (JStr t)) \<Rightarrow> Inr (t \<in> set no_layout_types)
                | Inr _ \<Rightarrow> Inr False))"

text \<open>
  \<^verbatim>\<open>dx = abs(comp1.x - comp2.x)\<close>, \<^verbatim>\<open>dy = abs(comp1.y - comp2.y)\<close>,
  \<^verbatim>\<open>distance = (dx**2 + dy**2)**0.5\<close>, in float arithmetic.
\<close>

definition distance :: "float_ops \<Rightarrow> SVGComponent \<Rightarrow> SVGComponent \<Rightarrow> py_error + pyfloat" where
  "distance fa c1 c2 =
     (let dx = py_abs (f_sub fa (c_x c1) (c_x c2));
          dy = py_abs (f_sub fa (c_y c1) (c_y c2))
      in case f_pow fa dx 2 of
           Inl err \<Rightarrow> Inl err
         | Inr dx2 \<Rightarrow>
             (case f_pow fa dy 2 of
                Inl err \<Rightarrow> Inl err
              | Inr dy2 \<Rightarrow> f_pow fa (f_add fa dx2 dy2) (1 / 2)))"

fun overlap_inner ::
  "float_ops \<Rightarrow> ComponentMapper \<Rightarrow> SVGComponent \<Rightarrow> SVGComponent list
   \<Rightarrow> (string \<times> string \<times> pyfloat) list \<Rightarrow> py_error + (string \<times> string \<times> pyfloat) list" where
  "overlap_inner fa m c1 [] overlaps = Inr overlaps"
| "overlap_inner fa m c1 (c2 # cs) overlaps =
     (case skip_overlap m c2 of
        Inl err \<Rightarrow> Inl err
      | Inr True \<Rightarrow> overlap_inner fa m c1 cs overlaps
      | Inr False \<Rightarrow>
          (case distance fa c1 c2 of
             Inl err \<Rightarrow> Inl err
           | Inr d \<Rightarrow>
               overlap_inner fa m c1 cs
                 (if py_lt d 2 then overlaps @ [(c_id c1, c_id c2, d)] else overlaps)))"

fun overlap_loop ::
  "float_ops \<Rightarrow> ComponentMapper \<Rightarrow> SVGComponent list \<Rightarrow> (string \<times> string \<times> pyfloat) list
   \<Rightarrow> py_error + (string \<times> string \<times> pyfloat) list" where
  "overlap_loop fa m [] overlaps = Inr overlaps"
| "overlap_loop fa m (c1 # cs) overlaps =
     (case skip_overlap m c1 of
        Inl err \<Rightarrow> Inl err
      | Inr True \<Rightarrow> overlap_loop fa m cs overlaps
      | Inr False \<Rightarrow>
          (case overlap_inner fa m c1 cs overlaps of
             Inl err \<Rightarrow> Inl err
           | Inr overlaps' \<Rightarrow> overlap_loop fa m cs overlaps'))"

definition out_of_bounds :: "SVGComponent list \<Rightarrow> string list" where
  "out_of_bounds components =
     map c_id (filter (\<lambda>c. c_x c < 0 \<or> 225 < c_x c \<or> c_y c < 0 \<or> 190 < c_y c) components)"

text \<open>A warning block is printed only for a non-empty list.\<close>

definition warn :: "('a list \<Rightarrow> message) \<Rightarrow> 'a list \<Rightarrow> world \<Rightarrow> world" where
  "warn msg xs w = (if xs = [] then w else say (msg xs) w)"

definition validate ::
  "float_ops \<Rightarrow> (string \<Rightarrow> real option) \<Rightarrow> SVGToJUCEConverter \<Rightarrow> world
   \<Rightarrow> (py_error + unit) \<times> world" where
  "validate fa pf conv w =
     (case load w (mapper conv) of
        Inl err \<Rightarrow> (Inl err, w)
      | Inr m \<Rightarrow>
          if \<not> truthy (mapping m) then (Inr (), say ErrNoMapping w)
          else
            (let w1 = say (Parsing (svg_path conv)) w in
             case parse pf (p_doc (parser conv)) of
               Inl err \<Rightarrow> (Inl err, w1)
             | Inr components \<Rightarrow>
                 (let w2 = say (Found (length components)) w1 in
                  case unmapped_loop (mapping m) components [] of
                    Inl err \<Rightarrow> (Inl err, w2)
                  | Inr unmapped \<Rightarrow>
                      (let w3 = warn WarnUnmapped unmapped w2 in
                       case py_items (mapping m) of
                         Inl err \<Rightarrow> (Inl err, w3)
                       | Inr items \<Rightarrow>
                           (case unknown_loop items [] of
                              Inl err \<Rightarrow> (Inl err, w3)
                            | Inr unknown_type \<Rightarrow>
                                (let w4 = warn WarnUnknownType unknown_type w3 in
                                 case overlap_loop fa m components [] of
                                   Inl err \<Rightarrow> (Inl err, w4)
                                 | Inr overlaps \<Rightarrow>
                                     (let w5 = warn WarnOverlaps overlaps w4;
                                          oob = out_of_bounds components;
                                          w6 = warn WarnOutOfBounds oob w5
                                      in if unmapped = [] \<and> unknown_type = [] \<and> overlaps = []
                                            \<and> oob = []
                                         then (Inr (), say ValidationPassed w6)
                                         else (Inr (),
                                               say (ValidationComplete
                                                      (length unmapped + length unknown_type
                                                       + length overlaps + length oob)) w6))))))))"

subsection \<open>\<^verbatim>\<open>generate_code\<close>\<close>

text \<open>
  The three snippet texts (\<^verbatim>\<open>generate_header_snippet\<close>, \<^verbatim>\<open>generate_constructor_snippet\<close>,
  \<^verbatim>\<open>generate_resized_snippet\<close>) are the parameter \<open>snippets\<close>; they are computed, in this
  order, before the preview is printed or a file is written. \<^verbatim>\<open>os.makedirs\<close> has no
  counterpart, directories not being modelled.
\<close>

definition generate_code ::
  "(string \<Rightarrow> real option)
   \<Rightarrow> (SVGComponent list \<Rightarrow> ComponentMapper \<Rightarrow> CoordinateConverter
        \<Rightarrow> py_error + string \<times> string \<times> string)
   \<Rightarrow> SVGToJUCEConverter \<Rightarrow> bool \<Rightarrow> world \<Rightarrow> (py_error + unit) \<times> world" where
  "generate_code pf snippets conv dry_run w =
     (case load w (mapper conv) of
        Inl err \<Rightarrow> (Inl err, w)
      | Inr m \<Rightarrow>
          if \<not> truthy (mapping m) then (Inr (), say ErrNoMapping w)
          else
            (let w1 = say (Parsing (svg_path conv)) w in
             case parse pf (p_doc (parser conv)) of
               Inl err \<Rightarrow> (Inl err, w1)
             | Inr components \<Rightarrow>
                 (let w2 = say GeneratingSnippets (say (Found (length components)) w1) in
                  case snippets components m (converter conv) of
                    Inl err \<Rightarrow> (Inl err, w2)
                  | Inr (header_snippet, constructor_snippet, resized_snippet) \<Rightarrow>
                      if dry_run
                      then (Inr (),
                            say (DryRunPreview (take 500 header_snippet)
                                   (take 500 constructor_snippet) (take 500 resized_snippet)) w2)
                      else
                        (let header_file = output_dir conv @ ''/header_snippet.hpp'';
                             constructor_file = output_dir conv @ ''/constructor_snippet.cpp'';
                             resized_file = output_dir conv @ ''/resized_snippet.cpp'';
                             w3 = say (Generated header_file)
                                    (write_file header_file (TextFile header_snippet) w2);
                             w4 = say (Generated constructor_file)
                                    (write_file constructor_file (TextFile constructor_snippet) w3);
                             w5 = say (Generated resized_file)
                                    (write_file resized_file (TextFile resized_snippet) w4)
                         in (Inr (), say GenerationComplete w5)))))"

subsection \<open>\<^verbatim>\<open>main\<close>\<close>

text \<open>
  The parsed command line, and how a run ends: by returning (exit status 0), by
  \<^verbatim>\<open>sys.exit(n)\<close>, or by an uncaught exception (exit status 1).
\<close>

record args =
  arg_init :: bool
  arg_dry_run :: bool
  arg_validate :: bool

datatype outcome = Returned | SysExit int | Raised py_error

fun exit_status :: "outcome \<Rightarrow> int" where
  "exit_status Returned = 0"
| "exit_status (SysExit n) = n"
| "exit_status (Raised err) = 1"

definition finish :: "(py_error + unit) \<times> world \<Rightarrow> outcome \<times> world" where
  "finish r = (case fst r of Inl err \<Rightarrow> Raised err | Inr u \<Rightarrow> Returned, snd r)"

definition main ::
  "float_ops \<Rightarrow> (string \<Rightarrow> real option) \<Rightarrow> (SVGComponent \<Rightarrow> json)
   \<Rightarrow> (SVGComponent list \<Rightarrow> ComponentMapper \<Rightarrow> CoordinateConverter
        \<Rightarrow> py_error + string \<times> string \<times> string)
   \<Rightarrow> string \<Rightarrow> args \<Rightarrow> world \<Rightarrow> outcome \<times> world" where
  "main fa pf suggest snippets script_dir a w =
     (let svg = script_dir @ ''/SR.svg'';
          mp = script_dir @ ''/component_mapping.json'';
          out = script_dir @ ''/generated''
      in if files w svg = None then (SysExit 1, say (ErrSvgNotFound svg) w)
         else
           (case SVGToJUCEConverter_init svg mp out w of
              Inl err \<Rightarrow> (Raised err, w)
            | Inr conv \<Rightarrow>
                if arg_init a then finish (init_mapping pf suggest conv w)
                else if arg_validate a then finish (validate fa pf conv w)
                else if arg_dry_run a then finish (generate_code pf snippets conv True w)
                else finish (generate_code pf snippets conv False w)))"

section \<open>Properties\<close>

subsection \<open>Evaluation of concrete runs\<close>

lemmas run_defs =
  validate_def load_def py_get_default_def parse_def iter_def svg_circle_def svg_rect_def svg_g_def
  parse_circle_def parse_rect_def get_str_def get_attr_def get_float_def decorative_def
  skip_ids_def assign_sections_def suffix_to_prefix skip_overlap_def get_component_info_def
  no_layout_types_def distance_def out_of_bounds_def warn_def say_def Let_def

subsection \<open>The mapping store and the unit converter\<close>

lemma py_round_near: "\<bar>of_int (py_round v) - v\<bar> \<le> 1 / 2"
  unfolding py_round_def Let_def by (auto; linarith)

text \<open>
  Claim C4. Saving a mapping store and loading the mapping file again gives back the store:
  whatever the mapper held before the load, its configuration and its component entries are
  afterwards those that were saved. The file is represented by the JSON value written to it.
\<close>

theorem save_load_roundtrip:
  "load (save m w) (m\<lparr>config := c0, mapping := g0\<rparr>) = Inr m"
  by (simp add: load_def save_def write_file_def py_get_default_def)

theorem save_load_roundtrip_witness:
  "load (save \<lparr>mapping_file = ''component_mapping.json'',
                 mapping = JObj [(''knob_size'', JObj [(''type'', JStr ''OccultKnob''), (''member'', JStr ''sizeKnob''), (''modulation'', JBool True)])],
                 config = default_config\<rparr>
          \<lparr>files = (\<lambda>p. None), stdout = []\<rparr>)
        (ComponentMapper_init ''component_mapping.json'')
   = Inr \<lparr>mapping_file = ''component_mapping.json'',
                 mapping = JObj [(''knob_size'', JObj [(''type'', JStr ''OccultKnob''), (''member'', JStr ''sizeKnob''), (''modulation'', JBool True)])],
                 config = default_config\<rparr>"
  using save_load_roundtrip [of "\<lparr>mapping_file = ''component_mapping.json'',
                 mapping = JObj [(''knob_size'', JObj [(''type'', JStr ''OccultKnob''), (''member'', JStr ''sizeKnob''), (''modulation'', JBool True)])],
                 config = default_config\<rparr>" "\<lparr>files = (\<lambda>p. None), stdout = []\<rparr>" "JObj []" "JObj []"]
  by (simp add: ComponentMapper_init_def)

text \<open>
  Claim C9. For positive canvas dimensions the constructor returns a converter whose two
  scale factors are strictly positive; they are the quotients computed in the constructor,
  and the conversions read the stored factors only: changing the dimension fields of the
  converter afterwards changes no conversion, so the factors are derived once, at construction.
\<close>

theorem scale_factors_positive:
  assumes "0 < w_mm" and "0 < h_mm" and "0 < w_px" and "0 < h_px"
  shows "\<exists>cv. CoordinateConverter_init w_mm h_mm w_px h_px = Inr cv
           \<and> 0 < scale_x cv \<and> 0 < scale_y cv
           \<and> scale_x cv = of_int w_px / w_mm \<and> scale_y cv = of_int h_px / h_mm
           \<and> (\<forall>a b c d x y.
                 to_juce (cv\<lparr>svg_width_mm := a, svg_height_mm := b,
                              juce_width_px := c, juce_height_px := d\<rparr>) x y = to_juce cv x y
               \<and> size_to_juce (cv\<lparr>svg_width_mm := a, svg_height_mm := b,
                              juce_width_px := c, juce_height_px := d\<rparr>) x y = size_to_juce cv x y)"
  using assms by (simp add: CoordinateConverter_init_def to_juce_def size_to_juce_def)

theorem scale_factors_positive_witness:
  "\<exists>cv. CoordinateConverter_init 225 190 850 720 = Inr cv
           \<and> 0 < scale_x cv \<and> 0 < scale_y cv \<and> scale_x cv = 34 / 9 \<and> scale_y cv = 72 / 19"
  using scale_factors_positive [of 225 190 850 720] by auto

text \<open>
  Claim C5. When the pixel canvas size equals the physical canvas size (and is not zero, so
  that the converter exists), \<^verbatim>\<open>to_juce\<close> returns each coordinate rounded to the nearest
  integer: the result differs from the position by at most one half on each axis.
\<close>

theorem to_juce_identity_scale:
  assumes "w_px \<noteq> 0" and "h_px \<noteq> 0"
  shows "\<exists>cv. CoordinateConverter_init (of_int w_px) (of_int h_px) w_px h_px = Inr cv
           \<and> (\<forall>x y. to_juce cv x y = (py_round x, py_round y)
                    \<and> \<bar>of_int (fst (to_juce cv x y)) - x\<bar> \<le> 1 / 2
                    \<and> \<bar>of_int (snd (to_juce cv x y)) - y\<bar> \<le> 1 / 2)"
proof -
  let ?cv = "\<lparr>svg_width_mm = of_int w_px, svg_height_mm = of_int h_px,
              juce_width_px = w_px, juce_height_px = h_px,
              scale_x = of_int w_px / of_int w_px, scale_y = of_int h_px / of_int h_px\<rparr>"
  have init: "CoordinateConverter_init (of_int w_px) (of_int h_px) w_px h_px = Inr ?cv"
    using assms by (simp add: CoordinateConverter_init_def)
  have conv: "to_juce ?cv x y = (py_round x, py_round y)" for x y
    using assms by (simp add: to_juce_def)
  show ?thesis
    using init conv py_round_near by (intro exI [of _ ?cv]) simp
qed

theorem to_juce_identity_scale_witness:
  "\<exists>cv. CoordinateConverter_init 850 720 850 720 = Inr cv
      \<and> to_juce cv (5 / 2) (73 / 10) = (2, 7) \<and> to_juce cv (7 / 2) (-3 / 2) = (4, -2)"
  using to_juce_identity_scale [of 850 720] by (auto simp: py_round_def Let_def)

subsection \<open>The parse pass\<close>

lemma parse_loop_result:
  "parse_loop f es acc = Inr r \<Longrightarrow>
   r = acc @ concat (map (\<lambda>e. case f e of Inr (Some c) \<Rightarrow> [c] | _ \<Rightarrow> []) es)"
proof (induction es arbitrary: acc)
  case Nil
  then show ?case by simp
next
  case (Cons e es)
  show ?case
  proof (cases "f e")
    case (Inl err)
    then show ?thesis using Cons.prems by simp
  next
    case (Inr res)
    show ?thesis
    proof (cases res)
      case None
      then show ?thesis using Inr Cons.prems Cons.IH [of acc] by simp
    next
      case (Some c)
      then show ?thesis using Inr Cons.prems Cons.IH [of "acc @ [c]"] by simp
    qed
  qed
qed

lemma parse_loop_total:
  "(\<And>e. e \<in> set es \<Longrightarrow> \<exists>r. f e = Inr r) \<Longrightarrow> \<exists>r. parse_loop f es acc = Inr r"
proof (induction es arbitrary: acc)
  case Nil
  then show ?case by simp
next
  case (Cons e es)
  obtain r where r: "f e = Inr r" using Cons.prems by auto
  have rest: "\<exists>r. parse_loop f es acc' = Inr r" for acc'
    using Cons.IH Cons.prems by simp
  show ?case using r rest by (cases r) simp_all
qed

lemma parse_circle_Some:
  "parse_circle pf e = Inr (Some c) \<Longrightarrow>
   c_id c = get_str e ''id'' \<and> c_id c \<noteq> [] \<and> \<not> decorative (c_id c) \<and> c_type c = ''circle''
   \<and> c_section c = []"
  by (auto simp: parse_circle_def Let_def split: if_splits sum.splits)

lemma parse_circle_None:
  "parse_circle pf e = Inr None \<Longrightarrow> get_str e ''id'' = [] \<or> decorative (get_str e ''id'')"
  by (auto simp: parse_circle_def Let_def split: if_splits sum.splits)

lemma parse_rect_Some:
  "parse_rect pf e = Inr (Some c) \<Longrightarrow>
   c_id c = get_str e ''id'' \<and> c_id c \<noteq> [] \<and> \<not> suffix ''_border'' (c_id c)
   \<and> c_id c \<notin> set skip_ids \<and> c_type c = ''rect'' \<and> c_section c = []"
  by (auto simp: parse_rect_def Let_def split: if_splits sum.splits)

lemma parse_rect_None:
  "parse_rect pf e = Inr None \<Longrightarrow>
   get_str e ''id'' = [] \<or> suffix ''_border'' (get_str e ''id'') \<or> get_str e ''id'' \<in> set skip_ids"
  by (auto simp: parse_rect_def Let_def split: if_splits sum.splits)

lemma circle_loop_ids:
  "parse_loop (parse_circle pf) es acc = Inr r \<Longrightarrow>
   map c_id r = map c_id acc
     @ filter (\<lambda>i. i \<noteq> [] \<and> \<not> decorative i) (map (\<lambda>e. get_str e ''id'') es)"
proof (induction es arbitrary: acc)
  case Nil
  then show ?case by simp
next
  case (Cons e es)
  then show ?case
    by (auto split: sum.splits option.splits dest!: parse_circle_Some parse_circle_None)
qed

lemma rect_loop_ids:
  "parse_loop (parse_rect pf) es acc = Inr r \<Longrightarrow>
   map c_id r = map c_id acc
     @ filter (\<lambda>i. i \<noteq> [] \<and> \<not> suffix ''_border'' i \<and> i \<notin> set skip_ids)
         (map (\<lambda>e. get_str e ''id'') es)"
proof (induction es arbitrary: acc)
  case Nil
  then show ?case by simp
next
  case (Cons e es)
  then show ?case
    by (auto split: sum.splits option.splits dest!: parse_rect_Some parse_rect_None)
qed

lemma assign_group_strip:
  "map (\<lambda>c. c\<lparr>c_section := []\<rparr>) (assign_group grp cs) = map (\<lambda>c. c\<lparr>c_section := []\<rparr>) cs"
  by (simp add: assign_group_def Let_def)

lemma assign_sections_strip:
  "map (\<lambda>c. c\<lparr>c_section := []\<rparr>) (assign_sections doc cs) = map (\<lambda>c. c\<lparr>c_section := []\<rparr>) cs"
proof -
  have "map (\<lambda>c. c\<lparr>c_section := []\<rparr>) (foldl (\<lambda>cs grp. assign_group grp cs) cs gs)
        = map (\<lambda>c. c\<lparr>c_section := []\<rparr>) cs" for gs
    by (induction gs arbitrary: cs) (simp_all add: assign_group_strip)
  then show ?thesis by (simp add: assign_sections_def)
qed

lemma assign_sections_ids: "map c_id (assign_sections doc cs) = map c_id cs"
proof -
  have "map c_id xs = map c_id (map (\<lambda>c. c\<lparr>c_section := []\<rparr>) xs)" for xs :: "SVGComponent list"
    by simp
  then show ?thesis by (metis assign_sections_strip)
qed

lemma get_float_missing: "get_attr e k = None \<Longrightarrow> get_float pf e k = Inr 0"
  by (simp add: get_float_def)

lemma get_float_total:
  "(\<And>s. get_attr e k = Some s \<Longrightarrow> pf s \<noteq> None) \<Longrightarrow> \<exists>v. get_float pf e k = Inr v"
  by (cases "get_attr e k") (auto simp: get_float_def)

lemma parse_circle_total:
  assumes "\<And>k s. k \<in> {''cx'', ''cy'', ''r''} \<Longrightarrow> get_attr e k = Some s \<Longrightarrow> pf s \<noteq> None"
  shows "\<exists>r. parse_circle pf e = Inr r"
proof -
  obtain cx where cx: "get_float pf e ''cx'' = Inr cx"
    using get_float_total [of e "''cx''" pf] assms by auto
  obtain cy where cy: "get_float pf e ''cy'' = Inr cy"
    using get_float_total [of e "''cy''" pf] assms by auto
  obtain r where r: "get_float pf e ''r'' = Inr r"
    using get_float_total [of e "''r''" pf] assms by auto
  show ?thesis by (simp add: parse_circle_def Let_def cx cy r)
qed

lemma parse_rect_total:
  assumes "\<And>k s. k \<in> {''x'', ''y'', ''width'', ''height''} \<Longrightarrow> get_attr e k = Some s \<Longrightarrow> pf s \<noteq> None"
  shows "\<exists>r. parse_rect pf e = Inr r"
proof -
  obtain x where x: "get_float pf e ''x'' = Inr x"
    using get_float_total [of e "''x''" pf] assms by auto
  obtain y where y: "get_float pf e ''y'' = Inr y"
    using get_float_total [of e "''y''" pf] assms by auto
  obtain wd where wd: "get_float pf e ''width'' = Inr wd"
    using get_float_total [of e "''width''" pf] assms by auto
  obtain h where h: "get_float pf e ''height'' = Inr h"
    using get_float_total [of e "''height''" pf] assms by auto
  show ?thesis by (simp add: parse_rect_def Let_def x y wd h)
qed

lemma parse_total:
  assumes circles: "\<forall>el \<in> set (iter svg_circle doc). \<forall>k \<in> {''cx'', ''cy'', ''r''}. \<forall>s.
                      get_attr el k = Some s \<longrightarrow> pf s \<noteq> None"
      and rects: "\<forall>el \<in> set (iter svg_rect doc). \<forall>k \<in> {''x'', ''y'', ''width'', ''height''}. \<forall>s.
                      get_attr el k = Some s \<longrightarrow> pf s \<noteq> None"
  shows "\<exists>comps. parse pf doc = Inr comps"
proof -
  have "\<exists>r. parse_circle pf el = Inr r" if "el \<in> set (iter svg_circle doc)" for el
    using parse_circle_total [of el pf] circles that by blast
  then obtain cs where cs: "parse_loop (parse_circle pf) (iter svg_circle doc) [] = Inr cs"
    using parse_loop_total [of "iter svg_circle doc" "parse_circle pf" "[]"] by blast
  have "\<exists>r. parse_rect pf el = Inr r" if "el \<in> set (iter svg_rect doc)" for el
    using parse_rect_total [of el pf] rects that by blast
  then obtain rs where rs: "parse_loop (parse_rect pf) (iter svg_rect doc) cs = Inr rs"
    using parse_loop_total [of "iter svg_rect doc" "parse_rect pf" cs] by blast
  show ?thesis by (simp add: parse_def cs rs)
qed

lemma parse_members:
  assumes "parse pf doc = Inr comps"
  shows "set (map (\<lambda>c. c\<lparr>c_section := []\<rparr>) comps)
         = {c. \<exists>e \<in> set (iter svg_circle doc). parse_circle pf e = Inr (Some c)}
           \<union> {c. \<exists>e \<in> set (iter svg_rect doc). parse_rect pf e = Inr (Some c)}"
proof -
  obtain cs rs where cs: "parse_loop (parse_circle pf) (iter svg_circle doc) [] = Inr cs"
    and rs: "parse_loop (parse_rect pf) (iter svg_rect doc) cs = Inr rs"
    and comps: "comps = assign_sections doc rs"
    using assms by (auto simp: parse_def split: sum.splits)
  have strip_c: "c\<lparr>c_section := []\<rparr> = c" if "parse_circle pf e = Inr (Some c)" for e c
    using parse_circle_Some [OF that] by simp
  have strip_r: "c\<lparr>c_section := []\<rparr> = c" if "parse_rect pf e = Inr (Some c)" for e c
    using parse_rect_Some [OF that] by simp
  have set_cs: "set cs = {c. \<exists>e \<in> set (iter svg_circle doc). parse_circle pf e = Inr (Some c)}"
    unfolding parse_loop_result [OF cs] by (auto split: sum.splits option.splits)
  have set_rs: "set rs = set cs \<union> {c. \<exists>e \<in> set (iter svg_rect doc). parse_rect pf e = Inr (Some c)}"
    unfolding parse_loop_result [OF rs] by (auto split: sum.splits option.splits)
  have "set (map (\<lambda>c. c\<lparr>c_section := []\<rparr>) comps) = (\<lambda>c. c\<lparr>c_section := []\<rparr>) ` set rs"
    unfolding comps assign_sections_strip by simp
  also have "\<dots> = set rs"
  proof -
    have "c\<lparr>c_section := []\<rparr> = c" if "c \<in> set rs" for c
      using that strip_c strip_r unfolding set_rs set_cs by blast
    then show ?thesis by force
  qed
  finally show ?thesis unfolding set_rs set_cs .
qed

text \<open>
  Claim C2, as the code has it. A parse pass yields one record per circle element that is
  not skipped, then one per rectangle element that is not skipped, in document order, each
  with the identifier of its element; nothing is removed or renamed. The identifiers of the
  returned list are therefore unique exactly when those elements carry pairwise distinct
  identifiers.
\<close>

theorem parse_identifiers:
  assumes "parse pf doc = Inr comps"
  shows "map c_id comps =
           filter (\<lambda>i. i \<noteq> [] \<and> \<not> decorative i)
             (map (\<lambda>e. get_str e ''id'') (iter svg_circle doc))
           @ filter (\<lambda>i. i \<noteq> [] \<and> \<not> suffix ''_border'' i \<and> i \<notin> set skip_ids)
               (map (\<lambda>e. get_str e ''id'') (iter svg_rect doc))
         \<and> (distinct (map c_id comps) \<longleftrightarrow>
              distinct (filter (\<lambda>i. i \<noteq> [] \<and> \<not> decorative i)
                          (map (\<lambda>e. get_str e ''id'') (iter svg_circle doc))
                        @ filter (\<lambda>i. i \<noteq> [] \<and> \<not> suffix ''_border'' i \<and> i \<notin> set skip_ids)
                            (map (\<lambda>e. get_str e ''id'') (iter svg_rect doc))))"
proof -
  obtain cs rs where cs: "parse_loop (parse_circle pf) (iter svg_circle doc) [] = Inr cs"
    and rs: "parse_loop (parse_rect pf) (iter svg_rect doc) cs = Inr rs"
    and comps: "comps = assign_sections doc rs"
    using assms by (auto simp: parse_def split: sum.splits)
  have "map c_id comps = map c_id rs"
    by (simp add: comps assign_sections_ids)
  then have ids: "map c_id comps =
           filter (\<lambda>i. i \<noteq> [] \<and> \<not> decorative i)
             (map (\<lambda>e. get_str e ''id'') (iter svg_circle doc))
           @ filter (\<lambda>i. i \<noteq> [] \<and> \<not> suffix ''_border'' i \<and> i \<notin> set skip_ids)
               (map (\<lambda>e. get_str e ''id'') (iter svg_rect doc))"
    using circle_loop_ids [OF cs] rect_loop_ids [OF rs] by simp
  show ?thesis
    unfolding ids by simp
qed

theorem parse_identifiers_witness:
  "parse [''10'' \<mapsto> 10, ''20'' \<mapsto> 20]
     (Element ''{http://www.w3.org/2000/svg}svg'' []
        [Element ''{http://www.w3.org/2000/svg}circle'' [(''id'', ''knob_size''), (''cx'', ''10''), (''cy'', ''20'')] [],
         Element ''{http://www.w3.org/2000/svg}circle'' [(''id'', ''midi_dot_1''), (''cx'', ''20'')] [],
         Element ''{http://www.w3.org/2000/svg}rect'' [(''id'', ''load_btn''), (''x'', ''20'')] []])
   = Inr [\<lparr>c_id = ''knob_size'', c_type = ''circle'', c_x = 10, c_y = 20, c_width = 0, c_height = 0,
           c_radius = 0, c_label = [], c_section = []\<rparr>,
          \<lparr>c_id = ''load_btn'', c_type = ''rect'', c_x = 20, c_y = 0, c_width = 0, c_height = 0,
           c_radius = 0, c_label = [], c_section = []\<rparr>]
   \<and> distinct (map c_id
        [\<lparr>c_id = ''knob_size'', c_type = ''circle'', c_x = 10, c_y = 20, c_width = 0, c_height = 0,
           c_radius = 0, c_label = [], c_section = []\<rparr>,
          \<lparr>c_id = ''load_btn'', c_type = ''rect'', c_x = 20, c_y = 0, c_width = 0, c_height = 0,
           c_radius = 0, c_label = [], c_section = []\<rparr>])"
proof -
  have p: "parse [''10'' \<mapsto> 10, ''20'' \<mapsto> 20]
     (Element ''{http://www.w3.org/2000/svg}svg'' []
        [Element ''{http://www.w3.org/2000/svg}circle'' [(''id'', ''knob_size''), (''cx'', ''10''), (''cy'', ''20'')] [],
         Element ''{http://www.w3.org/2000/svg}circle'' [(''id'', ''midi_dot_1''), (''cx'', ''20'')] [],
         Element ''{http://www.w3.org/2000/svg}rect'' [(''id'', ''load_btn''), (''x'', ''20'')] []])
   = Inr [\<lparr>c_id = ''knob_size'', c_type = ''circle'', c_x = 10, c_y = 20, c_width = 0, c_height = 0,
           c_radius = 0, c_label = [], c_section = []\<rparr>,
          \<lparr>c_id = ''load_btn'', c_type = ''rect'', c_x = 20, c_y = 0, c_width = 0, c_height = 0,
           c_radius = 0, c_label = [], c_section = []\<rparr>]"
    by (simp add: parse_def iter_def svg_circle_def svg_rect_def svg_g_def parse_circle_def
        parse_rect_def get_str_def get_attr_def get_float_def decorative_def skip_ids_def
        assign_sections_def suffix_to_prefix)
  show ?thesis
    using parse_identifiers [OF p] p by simp
qed

theorem parse_duplicate_identifiers_counterexample:
  "parse [''10'' \<mapsto> 10, ''20'' \<mapsto> 20]
     (Element ''{http://www.w3.org/2000/svg}svg'' []
        [Element ''{http://www.w3.org/2000/svg}circle'' [(''id'', ''knob_size''), (''cx'', ''10'')] [],
         Element ''{http://www.w3.org/2000/svg}circle'' [(''id'', ''knob_size''), (''cx'', ''20'')] []])
   = Inr [\<lparr>c_id = ''knob_size'', c_type = ''circle'', c_x = 10, c_y = 0, c_width = 0, c_height = 0,
           c_radius = 0, c_label = [], c_section = []\<rparr>,
          \<lparr>c_id = ''knob_size'', c_type = ''circle'', c_x = 20, c_y = 0, c_width = 0, c_height = 0,
           c_radius = 0, c_label = [], c_section = []\<rparr>]
   \<and> \<not> distinct (map c_id
        [\<lparr>c_id = ''knob_size'', c_type = ''circle'', c_x = 10, c_y = 0, c_width = 0, c_height = 0,
           c_radius = 0, c_label = [], c_section = []\<rparr>,
          \<lparr>c_id = ''knob_size'', c_type = ''circle'', c_x = 20, c_y = 0, c_width = 0, c_height = 0,
           c_radius = 0, c_label = [], c_section = []\<rparr>])"
  by (simp add: parse_def iter_def svg_circle_def svg_rect_def svg_g_def parse_circle_def
        parse_rect_def get_str_def get_attr_def get_float_def decorative_def skip_ids_def
        assign_sections_def suffix_to_prefix)

text \<open>
  The skip rule that each parser applies, read off the parsed list: every record has a
  non-empty identifier; a record of kind circle never has an identifier starting with
  \<^verbatim>\<open>grain_particle\<close>, \<^verbatim>\<open>midi_dot\<close> or \<^verbatim>\<open>kbd_key\<close>; a record of kind rect never has an
  identifier ending in \<^verbatim>\<open>_border\<close> or equal to \<^verbatim>\<open>panel_background\<close>, \<^verbatim>\<open>header_bg\<close> or
  \<^verbatim>\<open>waveform_path\<close>.
\<close>

lemma parsed_shapes_skip_rules:
  assumes "parse pf doc = Inr comps" and "c \<in> set comps"
  shows "c_id c \<noteq> []
         \<and> (c_type c = ''circle'' \<and> \<not> decorative (c_id c)
            \<or> c_type c = ''rect'' \<and> \<not> suffix ''_border'' (c_id c) \<and> c_id c \<notin> set skip_ids)"
proof -
  have "c\<lparr>c_section := []\<rparr> \<in> set (map (\<lambda>c. c\<lparr>c_section := []\<rparr>) comps)"
    using assms(2) by simp
  then consider e where "parse_circle pf e = Inr (Some (c\<lparr>c_section := []\<rparr>))"
    | e where "parse_rect pf e = Inr (Some (c\<lparr>c_section := []\<rparr>))"
    unfolding parse_members [OF assms(1)] by blast
  then show ?thesis
  proof cases
    case 1
    then show ?thesis using parse_circle_Some [OF 1] by auto
  next
    case 2
    then show ?thesis using parse_rect_Some [OF 2] by auto
  qed
qed

text \<open>
  Claim C6. No element whose identifier starts with a decorative prefix should reach the
  parsed list, whatever its kind. \<^verbatim>\<open>_parse_circle\<close> tests the prefixes;
  \<^verbatim>\<open>_parse_rect\<close>, whose comment says that it skips decorative elements too, does not: a
  rectangle with the identifier \<^verbatim>\<open>kbd_key_1\<close> is parsed into the list.
\<close>

theorem parse_rect_keeps_decorative_prefix:
  "parse Map.empty
     (Element ''{http://www.w3.org/2000/svg}svg'' []
        [Element ''{http://www.w3.org/2000/svg}rect'' [(''id'', ''kbd_key_1'')] []])
   = Inr [\<lparr>c_id = ''kbd_key_1'', c_type = ''rect'', c_x = 0, c_y = 0, c_width = 0, c_height = 0,
           c_radius = 0, c_label = [], c_section = []\<rparr>]
   \<and> decorative ''kbd_key_1''"
  by (simp add: parse_def iter_def svg_circle_def svg_rect_def svg_g_def parse_circle_def
        parse_rect_def get_str_def get_attr_def get_float_def decorative_def skip_ids_def
        assign_sections_def suffix_to_prefix)

text \<open>
  Claim C10. A missing numeric attribute reads as 0 and never raises. In a drawing whose
  present numeric attributes are all readable as numbers, the parse pass returns, and for a
  circle or rectangle element with a non-skipped identifier and none of its position and size
  attributes, the element's record has position (0, 0) and zero size and is in the returned
  list (up to the section label that the pass assigns afterwards).
\<close>

theorem missing_attributes_default_zero:
  assumes circles: "\<forall>el \<in> set (iter svg_circle doc). \<forall>k \<in> {''cx'', ''cy'', ''r''}. \<forall>s.
                      get_attr el k = Some s \<longrightarrow> pf s \<noteq> None"
      and rects: "\<forall>el \<in> set (iter svg_rect doc). \<forall>k \<in> {''x'', ''y'', ''width'', ''height''}. \<forall>s.
                      get_attr el k = Some s \<longrightarrow> pf s \<noteq> None"
      and e: "e \<in> set (iter_all doc)" and ident: "get_str e ''id'' \<noteq> []"
  shows "(\<forall>k. get_attr e k = None \<longrightarrow> get_float pf e k = Inr 0)
       \<and> (\<exists>comps. parse pf doc = Inr comps
           \<and> (tag e = svg_circle \<and> \<not> decorative (get_str e ''id'')
              \<and> get_attr e ''cx'' = None \<and> get_attr e ''cy'' = None \<and> get_attr e ''r'' = None
              \<longrightarrow> parse_circle pf e
                    = Inr (Some \<lparr>c_id = get_str e ''id'', c_type = ''circle'', c_x = 0, c_y = 0,
                                 c_width = 0, c_height = 0, c_radius = 0, c_label = [],
                                 c_section = []\<rparr>)
                \<and> (\<exists>c \<in> set comps. c\<lparr>c_section := []\<rparr>
                      = \<lparr>c_id = get_str e ''id'', c_type = ''circle'', c_x = 0, c_y = 0,
                         c_width = 0, c_height = 0, c_radius = 0, c_label = [], c_section = []\<rparr>))
           \<and> (tag e = svg_rect \<and> \<not> suffix ''_border'' (get_str e ''id'')
              \<and> get_str e ''id'' \<notin> set skip_ids
              \<and> get_attr e ''x'' = None \<and> get_attr e ''y'' = None
              \<and> get_attr e ''width'' = None \<and> get_attr e ''height'' = None
              \<longrightarrow> parse_rect pf e
                    = Inr (Some \<lparr>c_id = get_str e ''id'', c_type = ''rect'', c_x = 0, c_y = 0,
                                 c_width = 0, c_height = 0, c_radius = 0, c_label = [],
                                 c_section = []\<rparr>)
                \<and> (\<exists>c \<in> set comps. c\<lparr>c_section := []\<rparr>
                      = \<lparr>c_id = get_str e ''id'', c_type = ''rect'', c_x = 0, c_y = 0,
                         c_width = 0, c_height = 0, c_radius = 0, c_label = [], c_section = []\<rparr>)))"
proof -
  obtain comps where comps: "parse pf doc = Inr comps"
    using parse_total [OF circles rects] by blast
  let ?strip = "\<lambda>c. c\<lparr>c_section := []\<rparr>"
  let ?zc = "\<lparr>c_id = get_str e ''id'', c_type = ''circle'', c_x = 0, c_y = 0,
              c_width = 0, c_height = 0, c_radius = 0, c_label = [], c_section = []\<rparr>"
  let ?zr = "\<lparr>c_id = get_str e ''id'', c_type = ''rect'', c_x = 0, c_y = 0,
              c_width = 0, c_height = 0, c_radius = 0, c_label = [], c_section = []\<rparr>"
  have member: "\<exists>c \<in> set comps. ?strip c = c0" if "c0 \<in> set (map ?strip comps)" for c0
    using that by auto
  have missing: "\<forall>k. get_attr e k = None \<longrightarrow> get_float pf e k = Inr 0"
    by (simp add: get_float_missing)
  have circle_case:
    "tag e = svg_circle \<and> \<not> decorative (get_str e ''id'')
     \<and> get_attr e ''cx'' = None \<and> get_attr e ''cy'' = None \<and> get_attr e ''r'' = None
     \<longrightarrow> parse_circle pf e = Inr (Some ?zc) \<and> (\<exists>c \<in> set comps. ?strip c = ?zc)"
  proof (intro impI, elim conjE)
    assume t: "tag e = svg_circle" and d: "\<not> decorative (get_str e ''id'')"
      and a: "get_attr e ''cx'' = None" "get_attr e ''cy'' = None" "get_attr e ''r'' = None"
    have pc: "parse_circle pf e = Inr (Some ?zc)"
      using ident d a by (simp add: parse_circle_def Let_def get_float_missing)
    have "e \<in> set (iter svg_circle doc)"
      using t e by (simp add: iter_def)
    then have "?zc \<in> set (map ?strip comps)"
      unfolding parse_members [OF comps] using pc by blast
    then show "parse_circle pf e = Inr (Some ?zc) \<and> (\<exists>c \<in> set comps. ?strip c = ?zc)"
      using pc member by blast
  qed
  have rect_case:
    "tag e = svg_rect \<and> \<not> suffix ''_border'' (get_str e ''id'')
     \<and> get_str e ''id'' \<notin> set skip_ids
     \<and> get_attr e ''x'' = None \<and> get_attr e ''y'' = None
     \<and> get_attr e ''width'' = None \<and> get_attr e ''height'' = None
     \<longrightarrow> parse_rect pf e = Inr (Some ?zr) \<and> (\<exists>c \<in> set comps. ?strip c = ?zr)"
  proof (intro impI, elim conjE)
    assume t: "tag e = svg_rect" and d: "\<not> suffix ''_border'' (get_str e ''id'')"
      "get_str e ''id'' \<notin> set skip_ids"
      and a: "get_attr e ''x'' = None" "get_attr e ''y'' = None"
        "get_attr e ''width'' = None" "get_attr e ''height'' = None"
    have pr: "parse_rect pf e = Inr (Some ?zr)"
      using ident d a by (simp add: parse_rect_def Let_def get_float_missing)
    have "e \<in> set (iter svg_rect doc)"
      using t e by (simp add: iter_def)
    then have "?zr \<in> set (map ?strip comps)"
      unfolding parse_members [OF comps] using pr by blast
    then show "parse_rect pf e = Inr (Some ?zr) \<and> (\<exists>c \<in> set comps. ?strip c = ?zr)"
      using pr member by blast
  qed
  show ?thesis
    by (rule conjI [OF missing], rule exI [of _ comps], intro conjI, rule comps,
        rule circle_case, rule rect_case)
qed

theorem missing_attributes_default_zero_witness:
  "parse Map.empty
     (Element ''{http://www.w3.org/2000/svg}svg'' []
        [Element ''{http://www.w3.org/2000/svg}circle'' [(''id'', ''knob_mix'')] [],
         Element ''{http://www.w3.org/2000/svg}rect'' [(''id'', ''load_btn'')] []])
   = Inr [\<lparr>c_id = ''knob_mix'', c_type = ''circle'', c_x = 0, c_y = 0, c_width = 0, c_height = 0,
           c_radius = 0, c_label = [], c_section = []\<rparr>,
          \<lparr>c_id = ''load_btn'', c_type = ''rect'', c_x = 0, c_y = 0, c_width = 0, c_height = 0,
           c_radius = 0, c_label = [], c_section = []\<rparr>]
   \<and> parse_circle Map.empty (Element ''{http://www.w3.org/2000/svg}circle'' [(''id'', ''knob_mix'')] [])
     = Inr (Some \<lparr>c_id = ''knob_mix'', c_type = ''circle'', c_x = 0, c_y = 0, c_width = 0,
                  c_height = 0, c_radius = 0, c_label = [], c_section = []\<rparr>)"
  using missing_attributes_default_zero [of
      "Element ''{http://www.w3.org/2000/svg}svg'' []
        [Element ''{http://www.w3.org/2000/svg}circle'' [(''id'', ''knob_mix'')] [],
         Element ''{http://www.w3.org/2000/svg}rect'' [(''id'', ''load_btn'')] []]"
      Map.empty
      "Element ''{http://www.w3.org/2000/svg}circle'' [(''id'', ''knob_mix'')] []"]
  by (simp add: parse_def iter_def svg_circle_def svg_rect_def svg_g_def parse_circle_def
        parse_rect_def get_str_def get_attr_def get_float_def decorative_def skip_ids_def
        assign_sections_def suffix_to_prefix)

subsection \<open>Validation\<close>

lemma stdout_say: "stdout (say msg w) = stdout w @ [msg]"
  by (simp add: say_def)

lemma stdout_warn: "stdout (warn f xs w) = stdout w @ (if xs = [] then [] else [f xs])"
  by (simp add: warn_def say_def)

lemma unmapped_loop_dict:
  "unmapped_loop (JObj kvs) cs acc
   = Inr (acc @ filter (\<lambda>i. i \<notin> fst ` set kvs) (map c_id cs))"
  by (induction cs arbitrary: acc) auto

lemma unknown_loop_total:
  "(\<And>v. v \<in> snd ` set kvs \<Longrightarrow> \<exists>info. v = JObj info) \<Longrightarrow> \<exists>r. unknown_loop kvs acc = Inr r"
proof (induction kvs arbitrary: acc)
  case Nil
  then show ?case by simp
next
  case (Cons kv kvs)
  obtain k v where kv: "kv = (k, v)" by (cases kv)
  obtain info where v: "v = JObj info" using Cons.prems [of v] kv by auto
  have "\<exists>r. unknown_loop kvs acc' = Inr r" for acc'
    using Cons.IH Cons.prems by simp
  then show ?case by (simp add: kv v)
qed

lemma skip_overlap_total:
  assumes "mapping m = JObj kvs" and "\<And>v. v \<in> snd ` set kvs \<Longrightarrow> \<exists>info. v = JObj info"
  shows "\<exists>b. skip_overlap m c = Inr b"
proof (cases "map_of kvs (c_id c)")
  case None
  then show ?thesis using assms(1) by (auto simp: skip_overlap_def get_component_info_def)
next
  case (Some v)
  then have "v \<in> snd ` set kvs" by (metis map_of_SomeD snd_conv image_eqI)
  then obtain info where "v = JObj info" using assms(2) by blast
  then show ?thesis
    using assms(1) Some
    by (auto simp: skip_overlap_def get_component_info_def split: option.splits json.splits)
qed

lemma skip_overlap_False_iff:
  assumes "mapping m = JObj kvs"
  shows "skip_overlap m c = Inr False \<longleftrightarrow>
         (\<exists>info. map_of kvs (c_id c) = Some (JObj info) \<and> info \<noteq> []
            \<and> (\<forall>t. map_of info ''type'' = Some (JStr t) \<longrightarrow> t \<notin> set no_layout_types))"
proof (cases "map_of kvs (c_id c)")
  case None
  then show ?thesis using assms by (simp add: skip_overlap_def get_component_info_def)
next
  case (Some v)
  then show ?thesis
    using assms
    by (cases v)
       (auto simp: skip_overlap_def get_component_info_def split: option.splits json.splits)
qed

text \<open>What one step of each overlap loop did, when the loop returned.\<close>

lemma overlap_inner_step:
  assumes "overlap_inner fa m c1 (c2 # cs) acc = Inr r"
  obtains (skipped) "skip_overlap m c2 = Inr True" "overlap_inner fa m c1 cs acc = Inr r"
  | (far) d where "skip_overlap m c2 = Inr False" "distance fa c1 c2 = Inr d" "\<not> py_lt d 2"
      "overlap_inner fa m c1 cs acc = Inr r"
  | (near) d where "skip_overlap m c2 = Inr False" "distance fa c1 c2 = Inr d" "py_lt d 2"
      "overlap_inner fa m c1 cs (acc @ [(c_id c1, c_id c2, d)]) = Inr r"
proof (cases "skip_overlap m c2")
  case (Inl err)
  then show ?thesis using assms by simp
next
  case (Inr b)
  show ?thesis
  proof (cases b)
    case True
    then show ?thesis using assms Inr skipped by simp
  next
    case False
    show ?thesis
    proof (cases "distance fa c1 c2")
      case (Inl err)
      then show ?thesis using assms Inr False by simp
    next
      case d: (Inr d)
      show ?thesis
      proof (cases "py_lt d 2")
        case True
        then show ?thesis using assms Inr False d near by simp
      next
        case lt: False
        then show ?thesis using assms Inr False d far by simp
      qed
    qed
  qed
qed

lemma overlap_loop_step:
  assumes "overlap_loop fa m (c # cs) acc = Inr r"
  obtains (skipped) "skip_overlap m c = Inr True" "overlap_loop fa m cs acc = Inr r"
  | (scanned) acc' where "skip_overlap m c = Inr False" "overlap_inner fa m c cs acc = Inr acc'"
      "overlap_loop fa m cs acc' = Inr r"
proof (cases "skip_overlap m c")
  case (Inl err)
  then show ?thesis using assms by simp
next
  case (Inr b)
  show ?thesis
  proof (cases b)
    case True
    then show ?thesis using assms Inr skipped by simp
  next
    case False
    show ?thesis
    proof (cases "overlap_inner fa m c cs acc")
      case (Inl err)
      then show ?thesis using assms Inr False by simp
    next
      case acc': (Inr acc')
      then show ?thesis using assms Inr False scanned by simp
    qed
  qed
qed

lemma overlap_inner_mono:
  "overlap_inner fa m c1 cs acc = Inr r \<Longrightarrow> set acc \<subseteq> set r"
proof (induction cs arbitrary: acc)
  case Nil
  then show ?case by simp
next
  case (Cons c2 cs)
  from Cons.prems show ?case
  proof (cases rule: overlap_inner_step)
    case skipped
    then show ?thesis using Cons.IH by blast
  next
    case (far d)
    then show ?thesis using Cons.IH by blast
  next
    case (near d)
    then have "set (acc @ [(c_id c1, c_id c2, d)]) \<subseteq> set r" using Cons.IH by blast
    then show ?thesis by simp
  qed
qed

lemma overlap_inner_sound:
  "overlap_inner fa m c1 cs acc = Inr r \<Longrightarrow> t \<in> set r \<Longrightarrow>
   t \<in> set acc \<or>
   (\<exists>c2 d. c2 \<in> set cs \<and> skip_overlap m c2 = Inr False \<and> distance fa c1 c2 = Inr d
      \<and> py_lt d 2 \<and> t = (c_id c1, c_id c2, d))"
proof (induction cs arbitrary: acc)
  case Nil
  then show ?case by simp
next
  case (Cons c2 cs)
  from Cons.prems(1) show ?case
  proof (cases rule: overlap_inner_step)
    case skipped
    from Cons.IH [OF skipped(2) Cons.prems(2)] show ?thesis by auto
  next
    case (far d)
    from Cons.IH [OF far(4) Cons.prems(2)] show ?thesis by auto
  next
    case (near d)
    from Cons.IH [OF near(4) Cons.prems(2)]
    have "t \<in> set acc \<or> t = (c_id c1, c_id c2, d) \<or>
          (\<exists>c2 d. c2 \<in> set cs \<and> skip_overlap m c2 = Inr False \<and> distance fa c1 c2 = Inr d
             \<and> py_lt d 2 \<and> t = (c_id c1, c_id c2, d))"
      by auto
    then show ?thesis using near(1,2,3) by auto
  qed
qed

lemma overlap_inner_complete:
  "overlap_inner fa m c1 cs acc = Inr r \<Longrightarrow> c2 \<in> set cs \<Longrightarrow> skip_overlap m c2 = Inr False \<Longrightarrow>
   distance fa c1 c2 = Inr d \<Longrightarrow> py_lt d 2 \<Longrightarrow> (c_id c1, c_id c2, d) \<in> set r"
proof (induction cs arbitrary: acc)
  case Nil
  then show ?case by simp
next
  case (Cons c cs)
  show ?case
  proof (cases "c2 = c")
    case True
    from Cons.prems(1) show ?thesis
    proof (cases rule: overlap_inner_step)
      case skipped
      then show ?thesis using Cons.prems(3) True by simp
    next
      case (far d')
      then show ?thesis using Cons.prems(4,5) True by simp
    next
      case (near d')
      then have "d' = d" using Cons.prems(4) True by simp
      then have "(c_id c1, c_id c2, d) \<in> set (acc @ [(c_id c1, c_id c, d')])"
        using True by simp
      then show ?thesis using overlap_inner_mono [OF near(4)] by blast
    qed
  next
    case False
    then have mem: "c2 \<in> set cs" using Cons.prems(2) by simp
    from Cons.prems(1) show ?thesis
    proof (cases rule: overlap_inner_step)
      case skipped
      from Cons.IH [OF skipped(2) mem Cons.prems(3,4,5)] show ?thesis .
    next
      case (far d')
      from Cons.IH [OF far(4) mem Cons.prems(3,4,5)] show ?thesis .
    next
      case (near d')
      from Cons.IH [OF near(4) mem Cons.prems(3,4,5)] show ?thesis .
    qed
  qed
qed

lemma overlap_inner_total:
  assumes "\<And>c. c \<in> set cs \<Longrightarrow> \<exists>b. skip_overlap m c = Inr b"
      and "\<And>c2. c2 \<in> set cs \<Longrightarrow> skip_overlap m c2 = Inr False \<Longrightarrow> \<exists>d. distance fa c1 c2 = Inr d"
  shows "\<exists>r. overlap_inner fa m c1 cs acc = Inr r"
  using assms
proof (induction cs arbitrary: acc)
  case Nil
  then show ?case by simp
next
  case (Cons c cs)
  obtain b where b: "skip_overlap m c = Inr b" using Cons.prems(1) [of c] by auto
  have rest: "\<exists>r. overlap_inner fa m c1 cs acc' = Inr r" for acc'
    using Cons.IH Cons.prems by simp
  show ?case
  proof (cases b)
    case True
    then show ?thesis using b rest by simp
  next
    case False
    then obtain d where "distance fa c1 c = Inr d" using Cons.prems(2) [of c] b by auto
    then show ?thesis using b False rest by simp
  qed
qed

lemma overlap_loop_mono:
  "overlap_loop fa m cs acc = Inr r \<Longrightarrow> set acc \<subseteq> set r"
proof (induction cs arbitrary: acc)
  case Nil
  then show ?case by simp
next
  case (Cons c cs)
  from Cons.prems show ?case
  proof (cases rule: overlap_loop_step)
    case skipped
    then show ?thesis using Cons.IH by blast
  next
    case (scanned acc')
    then show ?thesis using Cons.IH [of acc'] overlap_inner_mono [of fa m c cs acc acc'] by blast
  qed
qed

lemma overlap_loop_sound:
  "overlap_loop fa m cs acc = Inr r \<Longrightarrow> t \<in> set r \<Longrightarrow>
   t \<in> set acc \<or>
   (\<exists>xs c1 ys c2 zs d. cs = xs @ c1 # ys @ c2 # zs
      \<and> skip_overlap m c1 = Inr False \<and> skip_overlap m c2 = Inr False
      \<and> distance fa c1 c2 = Inr d \<and> py_lt d 2 \<and> t = (c_id c1, c_id c2, d))"
proof (induction cs arbitrary: acc)
  case Nil
  then show ?case by simp
next
  case (Cons c cs)
  have lift: "\<exists>xs c1 ys c2 zs d. c # cs = xs @ c1 # ys @ c2 # zs
      \<and> skip_overlap m c1 = Inr False \<and> skip_overlap m c2 = Inr False
      \<and> distance fa c1 c2 = Inr d \<and> py_lt d 2 \<and> t = (c_id c1, c_id c2, d)"
    if "\<exists>xs c1 ys c2 zs d. cs = xs @ c1 # ys @ c2 # zs
      \<and> skip_overlap m c1 = Inr False \<and> skip_overlap m c2 = Inr False
      \<and> distance fa c1 c2 = Inr d \<and> py_lt d 2 \<and> t = (c_id c1, c_id c2, d)"
  proof -
    from that obtain xs c1 ys c2 zs d where dec: "cs = xs @ c1 # ys @ c2 # zs"
      and g: "skip_overlap m c1 = Inr False" "skip_overlap m c2 = Inr False"
        "distance fa c1 c2 = Inr d" "py_lt d 2" "t = (c_id c1, c_id c2, d)"
      by blast
    have "c # cs = (c # xs) @ c1 # ys @ c2 # zs" using dec by simp
    then show ?thesis using g by blast
  qed
  from Cons.prems(1) show ?case
  proof (cases rule: overlap_loop_step)
    case skipped
    from Cons.IH [OF skipped(2) Cons.prems(2)] show ?thesis using lift by blast
  next
    case (scanned acc')
    from Cons.IH [OF scanned(3) Cons.prems(2)]
    show ?thesis
    proof
      assume "t \<in> set acc'"
      from overlap_inner_sound [OF scanned(2) this]
      show ?thesis
      proof
        assume "t \<in> set acc"
        then show ?thesis by simp
      next
        assume "\<exists>c2 d. c2 \<in> set cs \<and> skip_overlap m c2 = Inr False \<and> distance fa c c2 = Inr d
                  \<and> py_lt d 2 \<and> t = (c_id c, c_id c2, d)"
        then obtain c2 d where c2: "c2 \<in> set cs" and g: "skip_overlap m c2 = Inr False"
          "distance fa c c2 = Inr d" "py_lt d 2" "t = (c_id c, c_id c2, d)"
          by blast
        obtain ys zs where "cs = ys @ c2 # zs" using c2 by (meson split_list)
        then have "c # cs = [] @ c # ys @ c2 # zs" by simp
        then show ?thesis using scanned(1) g by blast
      qed
    next
      assume "\<exists>xs c1 ys c2 zs d. cs = xs @ c1 # ys @ c2 # zs
        \<and> skip_overlap m c1 = Inr False \<and> skip_overlap m c2 = Inr False
        \<and> distance fa c1 c2 = Inr d \<and> py_lt d 2 \<and> t = (c_id c1, c_id c2, d)"
      then show ?thesis using lift by blast
    qed
  qed
qed

lemma overlap_loop_complete:
  "overlap_loop fa m cs acc = Inr r \<Longrightarrow> cs = xs @ c1 # ys @ c2 # zs \<Longrightarrow>
   skip_overlap m c1 = Inr False \<Longrightarrow> skip_overlap m c2 = Inr False \<Longrightarrow>
   distance fa c1 c2 = Inr d \<Longrightarrow> py_lt d 2 \<Longrightarrow> (c_id c1, c_id c2, d) \<in> set r"
proof (induction xs arbitrary: cs acc)
  case Nil
  define rest where "rest = ys @ c2 # zs"
  have cs: "cs = c1 # rest" using Nil.prems(2) by (simp add: rest_def)
  have mem: "c2 \<in> set rest" by (simp add: rest_def)
  from Nil.prems(1) [unfolded cs] show ?case
  proof (cases rule: overlap_loop_step)
    case skipped
    then show ?thesis using Nil.prems(3) by simp
  next
    case (scanned acc')
    have "(c_id c1, c_id c2, d) \<in> set acc'"
      using overlap_inner_complete [OF scanned(2) mem Nil.prems(4,5,6)] .
    then show ?thesis using overlap_loop_mono [OF scanned(3)] by blast
  qed
next
  case (Cons x xs)
  define rest where "rest = xs @ c1 # ys @ c2 # zs"
  have cs: "cs = x # rest" using Cons.prems(2) by (simp add: rest_def)
  from Cons.prems(1) [unfolded cs] show ?case
  proof (cases rule: overlap_loop_step)
    case skipped
    from Cons.IH [OF skipped(2) rest_def Cons.prems(3,4,5,6)] show ?thesis .
  next
    case (scanned acc')
    from Cons.IH [OF scanned(3) rest_def Cons.prems(3,4,5,6)] show ?thesis .
  qed
qed

lemma overlap_loop_total:
  assumes "\<And>c. c \<in> set cs \<Longrightarrow> \<exists>b. skip_overlap m c = Inr b"
      and "\<And>xs c1 ys c2 zs. cs = xs @ c1 # ys @ c2 # zs \<Longrightarrow> skip_overlap m c1 = Inr False \<Longrightarrow>
             skip_overlap m c2 = Inr False \<Longrightarrow> \<exists>d. distance fa c1 c2 = Inr d"
  shows "\<exists>r. overlap_loop fa m cs acc = Inr r"
  using assms
proof (induction cs arbitrary: acc)
  case Nil
  then show ?case by simp
next
  case (Cons c cs)
  obtain b where b: "skip_overlap m c = Inr b" using Cons.prems(1) [of c] by auto
  have tot: "\<exists>b. skip_overlap m c' = Inr b" if mem: "c' \<in> set cs" for c'
    using Cons.prems(1) mem by simp
  have pairs: "\<exists>d. distance fa c1 c2 = Inr d"
    if dec: "cs = xs @ c1 # ys @ c2 # zs" and g1: "skip_overlap m c1 = Inr False"
      and g2: "skip_overlap m c2 = Inr False"
    for xs c1 ys c2 zs
  proof -
    have "c # cs = (c # xs) @ c1 # ys @ c2 # zs" using dec by simp
    from Cons.prems(2) [OF this g1 g2] show ?thesis .
  qed
  have rest: "\<exists>r. overlap_loop fa m cs acc' = Inr r" for acc'
  proof (rule Cons.IH)
    fix c' assume "c' \<in> set cs"
    then show "\<exists>b. skip_overlap m c' = Inr b" by (rule tot)
  next
    fix xs c1 ys c2 zs
    assume "cs = xs @ c1 # ys @ c2 # zs" "skip_overlap m c1 = Inr False"
      "skip_overlap m c2 = Inr False"
    then show "\<exists>d. distance fa c1 c2 = Inr d" by (rule pairs)
  qed
  show ?case
  proof (cases b)
    case True
    then show ?thesis using b rest by simp
  next
    case False
    have gc: "skip_overlap m c = Inr False" using b False by simp
    have first: "\<exists>d. distance fa c c2 = Inr d"
      if mem: "c2 \<in> set cs" and g2: "skip_overlap m c2 = Inr False" for c2
    proof -
      obtain ys zs where "cs = ys @ c2 # zs" using mem by (meson split_list)
      then have "c # cs = [] @ c # ys @ c2 # zs" by simp
      from Cons.prems(2) [OF this gc g2] show ?thesis .
    qed
    have "\<exists>r. overlap_inner fa m c cs acc = Inr r"
    proof (rule overlap_inner_total)
      fix c' assume "c' \<in> set cs"
      then show "\<exists>b. skip_overlap m c' = Inr b" by (rule tot)
    next
      fix c2 assume "c2 \<in> set cs" "skip_overlap m c2 = Inr False"
      then show "\<exists>d. distance fa c c2 = Inr d" by (rule first)
    qed
    then obtain acc' where "overlap_inner fa m c cs acc = Inr acc'" by blast
    then show ?thesis using gc rest [of acc'] by simp
  qed
qed

lemma nth_pair_decomposition:
  assumes "i < j" and "j < length cs"
  shows "\<exists>xs ys zs. cs = xs @ cs ! i # ys @ cs ! j # zs"
proof -
  have i: "i < length cs" using assms by simp
  have a: "cs = take i cs @ cs ! i # drop (Suc i) cs"
    using id_take_nth_drop [OF i] .
  have j': "j - Suc i < length (drop (Suc i) cs)" using assms by simp
  have nth: "drop (Suc i) cs ! (j - Suc i) = cs ! j" using assms by simp
  have b: "drop (Suc i) cs = take (j - Suc i) (drop (Suc i) cs) @ cs ! j
            # drop (Suc (j - Suc i)) (drop (Suc i) cs)"
    using id_take_nth_drop [OF j'] nth by simp
  have "cs = take i cs @ cs ! i # take (j - Suc i) (drop (Suc i) cs) @ cs ! j
            # drop (Suc (j - Suc i)) (drop (Suc i) cs)"
    using a b by simp
  then show ?thesis by blast
qed

lemma decomposition_nth_pair:
  assumes "cs = xs @ c1 # ys @ c2 # zs"
  shows "\<exists>i j. i < j \<and> j < length cs \<and> cs ! i = c1 \<and> cs ! j = c2"
proof (intro exI conjI)
  show "length xs < length xs + Suc (length ys)" by simp
  show "length xs + Suc (length ys) < length cs" using assms by simp
  show "cs ! length xs = c1" using assms by simp
  show "cs ! (length xs + Suc (length ys)) = c2"
    using assms by (simp add: nth_append)
qed

text \<open>
  Two shapes at the same position have the computed distance 0 as soon as the float
  operations are exact at zero, as they are on the machine: \<^verbatim>\<open>x - x\<close> is \<^verbatim>\<open>0.0\<close> for a
  finite \<open>x\<close>, and \<^verbatim>\<open>0.0 ** 2\<close>, \<^verbatim>\<open>0.0 + 0.0\<close> and \<^verbatim>\<open>0.0 ** 0.5\<close> are \<^verbatim>\<open>0.0\<close>.
\<close>

lemma distance_coincide:
  assumes "c_x c1 = c_x c2" and "c_y c1 = c_y c2"
      and "f_sub fa (c_x c1) (c_x c1) = Finite 0" and "f_sub fa (c_y c1) (c_y c1) = Finite 0"
      and "f_pow fa (Finite 0) 2 = Inr (Finite 0)"
      and "f_add fa (Finite 0) (Finite 0) = Finite 0"
      and "f_pow fa (Finite 0) (1 / 2) = Inr (Finite 0)"
  shows "distance fa c1 c2 = Inr (Finite 0)"
  using assms by (simp add: distance_def Let_def)

text \<open>The output of a validation run that reaches the overlap check.\<close>

lemma validate_run:
  assumes load: "load w (mapper conv) = Inr m"
      and obj: "mapping m = JObj kvs" and ne: "kvs \<noteq> []"
      and parse: "parse pf (p_doc (parser conv)) = Inr comps"
      and unk: "unknown_loop kvs [] = Inr unknown_type"
  shows "overlap_loop fa m comps [] = Inr ovs \<Longrightarrow>
         validate fa pf conv w
         = (Inr (),
            w\<lparr>stdout := stdout w @ [Parsing (svg_path conv), Found (length comps)]
                 @ (if filter (\<lambda>i. i \<notin> fst ` set kvs) (map c_id comps) = [] then []
                    else [WarnUnmapped (filter (\<lambda>i. i \<notin> fst ` set kvs) (map c_id comps))])
                 @ (if unknown_type = [] then [] else [WarnUnknownType unknown_type])
                 @ (if ovs = [] then [] else [WarnOverlaps ovs])
                 @ (if out_of_bounds comps = [] then [] else [WarnOutOfBounds (out_of_bounds comps)])
                 @ [if filter (\<lambda>i. i \<notin> fst ` set kvs) (map c_id comps) = [] \<and> unknown_type = []
                       \<and> ovs = [] \<and> out_of_bounds comps = []
                    then ValidationPassed
                    else ValidationComplete
                           (length (filter (\<lambda>i. i \<notin> fst ` set kvs) (map c_id comps))
                            + length unknown_type + length ovs + length (out_of_bounds comps))]\<rparr>)"
    and "overlap_loop fa m comps [] = Inl err \<Longrightarrow>
         validate fa pf conv w
         = (Inl err,
            w\<lparr>stdout := stdout w @ [Parsing (svg_path conv), Found (length comps)]
                 @ (if filter (\<lambda>i. i \<notin> fst ` set kvs) (map c_id comps) = [] then []
                    else [WarnUnmapped (filter (\<lambda>i. i \<notin> fst ` set kvs) (map c_id comps))])
                 @ (if unknown_type = [] then [] else [WarnUnknownType unknown_type])\<rparr>)"
  by (simp_all add: validate_def load obj ne parse unmapped_loop_dict unk Let_def warn_def say_def)


text \<open>
  A run in which \<^verbatim>\<open>**\<close> raises: with a machine whose \<^verbatim>\<open>**\<close> overflows above
  \<open>10 ^ 154\<close>, a mapped shape at \<open>10 ^ 200\<close> before two mapped shapes that coincide ends
  validation with the exception, and no overlap is reported.
\<close>

lemma validate_overflow_run:
  "validate
     \<lparr>f_sub = \<lambda>x y. Finite (x - y),
       f_add = \<lambda>u v. (case u of Finite a \<Rightarrow> (case v of Finite b \<Rightarrow> Finite (a + b) | _ \<Rightarrow> v) | _ \<Rightarrow> u),
       f_pow = \<lambda>u p. (case u of Finite a \<Rightarrow> if 10 ^ 154 < a then Inl OverflowError
                                         else Inr (Finite (a powr p))
                        | _ \<Rightarrow> Inr u)\<rparr>
     [''1e200'' \<mapsto> 10 ^ 200, ''10'' \<mapsto> 10]
     \<lparr>svg_path = ''SR.svg'', mapping_path = ''component_mapping.json'', output_dir = ''generated'',
      parser = \<lparr>p_svg_path = ''SR.svg'',
                p_doc = Element ''{http://www.w3.org/2000/svg}svg'' []
                  [Element ''{http://www.w3.org/2000/svg}circle'' [(''id'', ''a''), (''cx'', ''1e200'')] [],
                   Element ''{http://www.w3.org/2000/svg}circle'' [(''id'', ''b''), (''cx'', ''10'')] [],
                   Element ''{http://www.w3.org/2000/svg}circle'' [(''id'', ''c''), (''cx'', ''10'')] []]\<rparr>,
      mapper = \<lparr>mapping_file = ''component_mapping.json'', mapping = JObj [], config = JObj []\<rparr>,
      converter = \<lparr>svg_width_mm = 225, svg_height_mm = 190, juce_width_px = 850,
                   juce_height_px = 720, scale_x = 34 / 9, scale_y = 72 / 19\<rparr>\<rparr>
     \<lparr>files = [''component_mapping.json'' \<mapsto>
                 JsonFile (JObj [(''config'', JObj []),
                   (''components'', JObj [(''a'', JObj [(''type'', JStr ''OccultKnob'')]),
                                        (''b'', JObj [(''type'', JStr ''OccultKnob'')]),
                                        (''c'', JObj [(''type'', JStr ''OccultKnob'')])])])],
      stdout = []\<rparr>
   = (Inl OverflowError,
      \<lparr>files = [''component_mapping.json'' \<mapsto>
                 JsonFile (JObj [(''config'', JObj []),
                   (''components'', JObj [(''a'', JObj [(''type'', JStr ''OccultKnob'')]),
                                        (''b'', JObj [(''type'', JStr ''OccultKnob'')]),
                                        (''c'', JObj [(''type'', JStr ''OccultKnob'')])])])],
       stdout = [Parsing ''SR.svg'', Found 3]\<rparr>)"
  by (simp add: run_defs)

text \<open>
  Claim C3, as the code has it. In a validation run that gets past the mapping guard (the
  loaded mapping is a non-empty dictionary) and parses the drawing, the list reported as
  unmapped is exactly the identifiers of the parsed shapes that are not keys of the mapping,
  in the order of the shapes, and it is reported when it is not empty; as a set it is the
  identifiers of the shapes minus the keys of the mapping, so a key of the mapping that no
  shape carries is never in it. A run whose loaded mapping is empty stops at the guard and
  reports no identifier.
\<close>

theorem validate_reports_unmapped:
  assumes load: "load w (mapper conv) = Inr m"
      and obj: "mapping m = JObj kvs" and ne: "kvs \<noteq> []"
      and parse: "parse pf (p_doc (parser conv)) = Inr comps"
  shows "(WarnUnmapped u \<in> set (drop (length (stdout w)) (stdout (snd (validate fa pf conv w))))
          \<longleftrightarrow> u \<noteq> [] \<and> u = filter (\<lambda>i. i \<notin> fst ` set kvs) (map c_id comps))
       \<and> set (filter (\<lambda>i. i \<notin> fst ` set kvs) (map c_id comps)) = c_id ` set comps - fst ` set kvs"
proof -
  let ?U = "filter (\<lambda>i. i \<notin> fst ` set kvs) (map c_id comps)"
  let ?w2 = "say (Found (length comps)) (say (Parsing (svg_path conv)) w)"
  let ?w3 = "warn WarnUnmapped ?U ?w2"
  have head: "stdout ?w3 = stdout w @ [Parsing (svg_path conv), Found (length comps)]
                @ (if ?U = [] then [] else [WarnUnmapped ?U])"
    by (simp add: stdout_warn stdout_say)
  obtain tl where out: "stdout (snd (validate fa pf conv w)) = stdout ?w3 @ tl"
    and tl: "\<And>u. WarnUnmapped u \<notin> set tl"
  proof (cases "unknown_loop kvs []")
    case (Inl err)
    have "stdout (snd (validate fa pf conv w)) = stdout ?w3 @ []"
      by (simp add: validate_def load obj ne parse unmapped_loop_dict Inl Let_def)
    then show ?thesis using that by simp
  next
    case unk: (Inr unknown_type)
    show ?thesis
    proof (cases "overlap_loop fa m comps []")
      case (Inl err)
      have "stdout (snd (validate fa pf conv w))
            = stdout ?w3 @ (if unknown_type = [] then [] else [WarnUnknownType unknown_type])"
        by (simp add: validate_def load obj ne parse unmapped_loop_dict unk Inl Let_def stdout_warn)
      then show ?thesis using that [of "if unknown_type = [] then [] else [WarnUnknownType unknown_type]"]
        by simp
    next
      case (Inr overlaps)
      let ?oob = "out_of_bounds comps"
      let ?tl = "(if unknown_type = [] then [] else [WarnUnknownType unknown_type])
                 @ (if overlaps = [] then [] else [WarnOverlaps overlaps])
                 @ (if ?oob = [] then [] else [WarnOutOfBounds ?oob])
                 @ [if ?U = [] \<and> unknown_type = [] \<and> overlaps = [] \<and> ?oob = []
                    then ValidationPassed
                    else ValidationComplete (length ?U + length unknown_type + length overlaps
                           + length ?oob)]"
      have "stdout (snd (validate fa pf conv w)) = stdout ?w3 @ ?tl"
        by (simp add: validate_def load obj ne parse unmapped_loop_dict unk Inr Let_def
            stdout_warn stdout_say)
      then show ?thesis using that [of ?tl] by simp
    qed
  qed
  have "drop (length (stdout w)) (stdout (snd (validate fa pf conv w)))
        = [Parsing (svg_path conv), Found (length comps)]
          @ (if ?U = [] then [] else [WarnUnmapped ?U]) @ tl"
    unfolding out head by simp
  then have "WarnUnmapped u \<in> set (drop (length (stdout w)) (stdout (snd (validate fa pf conv w))))
          \<longleftrightarrow> u \<noteq> [] \<and> u = ?U"
    using tl by auto
  moreover have "set ?U = c_id ` set comps - fst ` set kvs"
    by auto
  ultimately show ?thesis by blast
qed

theorem validate_reports_unmapped_witness:
  "WarnUnmapped [''save_btn'']
     \<in> set (drop (length [Parsing ''old''])
          (stdout (snd (validate
     \<lparr>f_sub = \<lambda>x y. Finite (x - y),
       f_add = \<lambda>u v. (case u of Finite a \<Rightarrow> (case v of Finite b \<Rightarrow> Finite (a + b) | _ \<Rightarrow> v) | _ \<Rightarrow> u),
       f_pow = \<lambda>u p. (case u of Finite a \<Rightarrow> Inr (Finite (a powr p)) | _ \<Rightarrow> Inr u)\<rparr>
     [''10'' \<mapsto> 10, ''20'' \<mapsto> 20]
     \<lparr>svg_path = ''SR.svg'', mapping_path = ''component_mapping.json'', output_dir = ''generated'',
      parser = \<lparr>p_svg_path = ''SR.svg'',
                p_doc = Element ''{http://www.w3.org/2000/svg}svg'' []
                  [Element ''{http://www.w3.org/2000/svg}circle''
                     [(''id'', ''knob_size''), (''cx'', ''10''), (''cy'', ''20'')] [],
                   Element ''{http://www.w3.org/2000/svg}rect''
                     [(''id'', ''save_btn''), (''x'', ''10''), (''y'', ''20'')] []]\<rparr>,
      mapper = \<lparr>mapping_file = ''component_mapping.json'', mapping = JObj [], config = JObj []\<rparr>,
      converter = \<lparr>svg_width_mm = 225, svg_height_mm = 190, juce_width_px = 850,
                   juce_height_px = 720, scale_x = 34 / 9, scale_y = 72 / 19\<rparr>\<rparr>
     \<lparr>files = [''component_mapping.json'' \<mapsto>
                 JsonFile (JObj [(''config'', JObj []),
                   (''components'', JObj [(''knob_size'', JObj [(''type'', JStr ''OccultKnob'')]),
       (''knob_mix'', JObj [(''type'', JStr ''OccultKnob'')])])])],
      stdout = [Parsing ''old'']\<rparr>))))
   \<and> stdout (snd (validate
     \<lparr>f_sub = \<lambda>x y. Finite (x - y),
       f_add = \<lambda>u v. (case u of Finite a \<Rightarrow> (case v of Finite b \<Rightarrow> Finite (a + b) | _ \<Rightarrow> v) | _ \<Rightarrow> u),
       f_pow = \<lambda>u p. (case u of Finite a \<Rightarrow> Inr (Finite (a powr p)) | _ \<Rightarrow> Inr u)\<rparr>
     [''10'' \<mapsto> 10, ''20'' \<mapsto> 20]
     \<lparr>svg_path = ''SR.svg'', mapping_path = ''component_mapping.json'', output_dir = ''generated'',
      parser = \<lparr>p_svg_path = ''SR.svg'',
                p_doc = Element ''{http://www.w3.org/2000/svg}svg'' []
                  [Element ''{http://www.w3.org/2000/svg}circle''
                     [(''id'', ''knob_size''), (''cx'', ''10''), (''cy'', ''20'')] [],
                   Element ''{http://www.w3.org/2000/svg}rect''
                     [(''id'', ''save_btn''), (''x'', ''10''), (''y'', ''20'')] []]\<rparr>,
      mapper = \<lparr>mapping_file = ''component_mapping.json'', mapping = JObj [], config = JObj []\<rparr>,
      converter = \<lparr>svg_width_mm = 225, svg_height_mm = 190, juce_width_px = 850,
                   juce_height_px = 720, scale_x = 34 / 9, scale_y = 72 / 19\<rparr>\<rparr>
     \<lparr>files = [''component_mapping.json'' \<mapsto>
                 JsonFile (JObj [(''config'', JObj []),
                   (''components'', JObj [(''knob_size'', JObj [(''type'', JStr ''OccultKnob'')]),
       (''knob_mix'', JObj [(''type'', JStr ''OccultKnob'')])])])],
      stdout = [Parsing ''old'']\<rparr>))
     = [Parsing ''old'', Parsing ''SR.svg'', Found 2, WarnUnmapped [''save_btn''],
        ValidationComplete 1]"
proof -
  have run: "stdout (snd (validate
     \<lparr>f_sub = \<lambda>x y. Finite (x - y),
       f_add = \<lambda>u v. (case u of Finite a \<Rightarrow> (case v of Finite b \<Rightarrow> Finite (a + b) | _ \<Rightarrow> v) | _ \<Rightarrow> u),
       f_pow = \<lambda>u p. (case u of Finite a \<Rightarrow> Inr (Finite (a powr p)) | _ \<Rightarrow> Inr u)\<rparr>
     [''10'' \<mapsto> 10, ''20'' \<mapsto> 20]
     \<lparr>svg_path = ''SR.svg'', mapping_path = ''component_mapping.json'', output_dir = ''generated'',
      parser = \<lparr>p_svg_path = ''SR.svg'',
                p_doc = Element ''{http://www.w3.org/2000/svg}svg'' []
                  [Element ''{http://www.w3.org/2000/svg}circle''
                     [(''id'', ''knob_size''), (''cx'', ''10''), (''cy'', ''20'')] [],
                   Element ''{http://www.w3.org/2000/svg}rect''
                     [(''id'', ''save_btn''), (''x'', ''10''), (''y'', ''20'')] []]\<rparr>,
      mapper = \<lparr>mapping_file = ''component_mapping.json'', mapping = JObj [], config = JObj []\<rparr>,
      converter = \<lparr>svg_width_mm = 225, svg_height_mm = 190, juce_width_px = 850,
                   juce_height_px = 720, scale_x = 34 / 9, scale_y = 72 / 19\<rparr>\<rparr>
     \<lparr>files = [''component_mapping.json'' \<mapsto>
                 JsonFile (JObj [(''config'', JObj []),
                   (''components'', JObj [(''knob_size'', JObj [(''type'', JStr ''OccultKnob'')]),
       (''knob_mix'', JObj [(''type'', JStr ''OccultKnob'')])])])],
      stdout = [Parsing ''old'']\<rparr>))
     = [Parsing ''old'', Parsing ''SR.svg'', Found 2, WarnUnmapped [''save_btn''],
        ValidationComplete 1]"
    by (simp add: run_defs)
  show ?thesis
    using validate_reports_unmapped [of
     "\<lparr>files = [''component_mapping.json'' \<mapsto>
                 JsonFile (JObj [(''config'', JObj []),
                   (''components'', JObj [(''knob_size'', JObj [(''type'', JStr ''OccultKnob'')]),
       (''knob_mix'', JObj [(''type'', JStr ''OccultKnob'')])])])],
      stdout = [Parsing ''old'']\<rparr>"
     "\<lparr>svg_path = ''SR.svg'', mapping_path = ''component_mapping.json'', output_dir = ''generated'',
      parser = \<lparr>p_svg_path = ''SR.svg'',
                p_doc = Element ''{http://www.w3.org/2000/svg}svg'' []
                  [Element ''{http://www.w3.org/2000/svg}circle''
                     [(''id'', ''knob_size''), (''cx'', ''10''), (''cy'', ''20'')] [],
                   Element ''{http://www.w3.org/2000/svg}rect''
                     [(''id'', ''save_btn''), (''x'', ''10''), (''y'', ''20'')] []]\<rparr>,
      mapper = \<lparr>mapping_file = ''component_mapping.json'', mapping = JObj [], config = JObj []\<rparr>,
      converter = \<lparr>svg_width_mm = 225, svg_height_mm = 190, juce_width_px = 850,
                   juce_height_px = 720, scale_x = 34 / 9, scale_y = 72 / 19\<rparr>\<rparr>"
     "\<lparr>mapping_file = ''component_mapping.json'',
       mapping = JObj [(''knob_size'', JObj [(''type'', JStr ''OccultKnob'')]),
       (''knob_mix'', JObj [(''type'', JStr ''OccultKnob'')])],
       config = JObj []\<rparr>"
     "[(''knob_size'', JObj [(''type'', JStr ''OccultKnob'')]),
       (''knob_mix'', JObj [(''type'', JStr ''OccultKnob'')])]"
     "[''10'' \<mapsto> 10, ''20'' \<mapsto> 20]"
     "[\<lparr>c_id = ''knob_size'', c_type = ''circle'', c_x = 10, c_y = 20, c_width = 0, c_height = 0,
        c_radius = 0, c_label = [], c_section = []\<rparr>,
       \<lparr>c_id = ''save_btn'', c_type = ''rect'', c_x = 10, c_y = 20, c_width = 0, c_height = 0,
        c_radius = 0, c_label = [], c_section = []\<rparr>]"
     "[''save_btn'']"
     "\<lparr>f_sub = \<lambda>x y. Finite (x - y),
       f_add = \<lambda>u v. (case u of Finite a \<Rightarrow> (case v of Finite b \<Rightarrow> Finite (a + b) | _ \<Rightarrow> v) | _ \<Rightarrow> u),
       f_pow = \<lambda>u p. (case u of Finite a \<Rightarrow> Inr (Finite (a powr p)) | _ \<Rightarrow> Inr u)\<rparr>"] run
    by (simp add: run_defs)
qed

theorem empty_mapping_reports_nothing_counterexample:
  "parse [''10'' \<mapsto> 10, ''20'' \<mapsto> 20]
     (Element ''{http://www.w3.org/2000/svg}svg'' []
                  [Element ''{http://www.w3.org/2000/svg}circle''
                     [(''id'', ''knob_size''), (''cx'', ''10''), (''cy'', ''20'')] []])
   = Inr [\<lparr>c_id = ''knob_size'', c_type = ''circle'', c_x = 10, c_y = 20, c_width = 0,
           c_height = 0, c_radius = 0, c_label = [], c_section = []\<rparr>]
   \<and> load \<lparr>files = [''component_mapping.json'' \<mapsto>
                 JsonFile (JObj [(''config'', JObj []), (''components'', JObj [])])],
      stdout = []\<rparr>
        \<lparr>mapping_file = ''component_mapping.json'', mapping = JObj [], config = JObj []\<rparr>
     = Inr \<lparr>mapping_file = ''component_mapping.json'', mapping = JObj [], config = JObj []\<rparr>
   \<and> stdout (snd (validate
     \<lparr>f_sub = \<lambda>x y. Finite (x - y),
       f_add = \<lambda>u v. (case u of Finite a \<Rightarrow> (case v of Finite b \<Rightarrow> Finite (a + b) | _ \<Rightarrow> v) | _ \<Rightarrow> u),
       f_pow = \<lambda>u p. (case u of Finite a \<Rightarrow> Inr (Finite (a powr p)) | _ \<Rightarrow> Inr u)\<rparr>
     [''10'' \<mapsto> 10, ''20'' \<mapsto> 20]
     \<lparr>svg_path = ''SR.svg'', mapping_path = ''component_mapping.json'', output_dir = ''generated'',
      parser = \<lparr>p_svg_path = ''SR.svg'',
                p_doc = Element ''{http://www.w3.org/2000/svg}svg'' []
                  [Element ''{http://www.w3.org/2000/svg}circle''
                     [(''id'', ''knob_size''), (''cx'', ''10''), (''cy'', ''20'')] []]\<rparr>,
      mapper = \<lparr>mapping_file = ''component_mapping.json'', mapping = JObj [], config = JObj []\<rparr>,
      converter = \<lparr>svg_width_mm = 225, svg_height_mm = 190, juce_width_px = 850,
                   juce_height_px = 720, scale_x = 34 / 9, scale_y = 72 / 19\<rparr>\<rparr>
     \<lparr>files = [''component_mapping.json'' \<mapsto>
                 JsonFile (JObj [(''config'', JObj []), (''components'', JObj [])])],
      stdout = []\<rparr>))
   = [ErrNoMapping]"
  by (simp add: run_defs)

text \<open>
  Claim C1, as the code has it. In a validation run whose loaded mapping is a non-empty
  dictionary of dictionaries, the overlap check returns when no distance computation raises
  (\<^verbatim>\<open>dx**2\<close> raises \<^verbatim>\<open>OverflowError\<close> for shapes very far apart); when it raises, validation
  ends with that exception and reports no overlap. When it returns, validation returns and the
  overlaps it reports are exactly the pairs of parsed shapes (the first before the second in
  the list) that both pass the guard of the overlap check (a non-empty mapping entry whose
  type is none of \<^verbatim>\<open>ModButton\<close>, \<^verbatim>\<open>Indicator\<close>, \<^verbatim>\<open>Unknown\<close>) and whose distance, as
  the program computes it in float arithmetic, is less than 2. So no pair whose computed
  distance is 2 or more is reported, and two such shapes whose positions coincide, their
  computed distance being 0, are reported.
\<close>

theorem validate_reports_overlaps:
  assumes load: "load w (mapper conv) = Inr m"
      and obj: "mapping m = JObj kvs" and ne: "kvs \<noteq> []"
      and entries: "\<forall>v \<in> snd ` set kvs. \<exists>info. v = JObj info"
      and parse: "parse pf (p_doc (parser conv)) = Inr comps"
  shows "((\<forall>i j. i < j \<and> j < length comps
              \<and> skip_overlap m (comps ! i) = Inr False \<and> skip_overlap m (comps ! j) = Inr False
            \<longrightarrow> (\<exists>d. distance fa (comps ! i) (comps ! j) = Inr d))
          \<longrightarrow> (\<exists>ovs. overlap_loop fa m comps [] = Inr ovs))
       \<and> (\<forall>err. overlap_loop fa m comps [] = Inl err
            \<longrightarrow> fst (validate fa pf conv w) = Inl err
              \<and> (\<forall>ov. WarnOverlaps ov
                      \<notin> set (drop (length (stdout w)) (stdout (snd (validate fa pf conv w))))))
       \<and> (\<forall>ovs. overlap_loop fa m comps [] = Inr ovs
            \<longrightarrow> fst (validate fa pf conv w) = Inr ()
              \<and> (\<forall>ov. WarnOverlaps ov
                        \<in> set (drop (length (stdout w)) (stdout (snd (validate fa pf conv w))))
                      \<longleftrightarrow> ov \<noteq> [] \<and> ov = ovs)
              \<and> (\<forall>t. t \<in> set ovs \<longleftrightarrow>
                    (\<exists>i j d. i < j \<and> j < length comps
                       \<and> skip_overlap m (comps ! i) = Inr False
                       \<and> skip_overlap m (comps ! j) = Inr False
                       \<and> distance fa (comps ! i) (comps ! j) = Inr d \<and> py_lt d 2
                       \<and> t = (c_id (comps ! i), c_id (comps ! j), d)))
              \<and> (\<forall>t \<in> set ovs. py_lt (snd (snd t)) 2)
              \<and> (\<forall>i j. i < j \<and> j < length comps
                       \<and> c_x (comps ! i) = c_x (comps ! j) \<and> c_y (comps ! i) = c_y (comps ! j)
                       \<and> skip_overlap m (comps ! i) = Inr False
                       \<and> skip_overlap m (comps ! j) = Inr False
                       \<and> f_sub fa (c_x (comps ! i)) (c_x (comps ! i)) = Finite 0
                       \<and> f_sub fa (c_y (comps ! i)) (c_y (comps ! i)) = Finite 0
                       \<and> f_pow fa (Finite 0) 2 = Inr (Finite 0)
                       \<and> f_add fa (Finite 0) (Finite 0) = Finite 0
                       \<and> f_pow fa (Finite 0) (1 / 2) = Inr (Finite 0)
                     \<longrightarrow> (c_id (comps ! i), c_id (comps ! j), Finite 0) \<in> set ovs))"
proof -
  have objs: "\<And>v. v \<in> snd ` set kvs \<Longrightarrow> \<exists>info. v = JObj info"
    using entries by blast
  have tot: "\<And>c. c \<in> set comps \<Longrightarrow> \<exists>b. skip_overlap m c = Inr b"
    using skip_overlap_total [OF obj objs] by blast
  obtain unknown_type where unk: "unknown_loop kvs [] = Inr unknown_type"
    using unknown_loop_total [OF objs] by blast
  note run = validate_run [OF load obj ne parse unk]
  have returns: "(\<forall>i j. i < j \<and> j < length comps
              \<and> skip_overlap m (comps ! i) = Inr False \<and> skip_overlap m (comps ! j) = Inr False
            \<longrightarrow> (\<exists>d. distance fa (comps ! i) (comps ! j) = Inr d))
          \<longrightarrow> (\<exists>ovs. overlap_loop fa m comps [] = Inr ovs)"
  proof
    assume fin: "\<forall>i j. i < j \<and> j < length comps
              \<and> skip_overlap m (comps ! i) = Inr False \<and> skip_overlap m (comps ! j) = Inr False
            \<longrightarrow> (\<exists>d. distance fa (comps ! i) (comps ! j) = Inr d)"
    have pairs: "\<exists>d. distance fa c1 c2 = Inr d"
      if dec: "comps = xs @ c1 # ys @ c2 # zs" and g1: "skip_overlap m c1 = Inr False"
        and g2: "skip_overlap m c2 = Inr False" for xs c1 ys c2 zs
    proof -
      obtain i j where "i < j" "j < length comps" "comps ! i = c1" "comps ! j = c2"
        using decomposition_nth_pair [OF dec] by blast
      then show ?thesis using fin g1 g2 by blast
    qed
    show "\<exists>ovs. overlap_loop fa m comps [] = Inr ovs"
    proof (rule overlap_loop_total)
      fix c assume "c \<in> set comps"
      then show "\<exists>b. skip_overlap m c = Inr b" by (rule tot)
    next
      fix xs c1 ys c2 zs
      assume "comps = xs @ c1 # ys @ c2 # zs" "skip_overlap m c1 = Inr False"
        "skip_overlap m c2 = Inr False"
      then show "\<exists>d. distance fa c1 c2 = Inr d" by (rule pairs)
    qed
  qed
  have raises: "\<forall>err. overlap_loop fa m comps [] = Inl err
            \<longrightarrow> fst (validate fa pf conv w) = Inl err
              \<and> (\<forall>ov. WarnOverlaps ov
                      \<notin> set (drop (length (stdout w)) (stdout (snd (validate fa pf conv w)))))"
  proof (intro allI impI)
    fix err assume "overlap_loop fa m comps [] = Inl err"
    from run(2) [OF this]
    show "fst (validate fa pf conv w) = Inl err
              \<and> (\<forall>ov. WarnOverlaps ov
                      \<notin> set (drop (length (stdout w)) (stdout (snd (validate fa pf conv w)))))"
      by simp
  qed
  have returned: "fst (validate fa pf conv w) = Inr ()
              \<and> (\<forall>ov. WarnOverlaps ov
                        \<in> set (drop (length (stdout w)) (stdout (snd (validate fa pf conv w))))
                      \<longleftrightarrow> ov \<noteq> [] \<and> ov = ovs)
              \<and> (\<forall>t. t \<in> set ovs \<longleftrightarrow>
                    (\<exists>i j d. i < j \<and> j < length comps
                       \<and> skip_overlap m (comps ! i) = Inr False
                       \<and> skip_overlap m (comps ! j) = Inr False
                       \<and> distance fa (comps ! i) (comps ! j) = Inr d \<and> py_lt d 2
                       \<and> t = (c_id (comps ! i), c_id (comps ! j), d)))
              \<and> (\<forall>t \<in> set ovs. py_lt (snd (snd t)) 2)
              \<and> (\<forall>i j. i < j \<and> j < length comps
                       \<and> c_x (comps ! i) = c_x (comps ! j) \<and> c_y (comps ! i) = c_y (comps ! j)
                       \<and> skip_overlap m (comps ! i) = Inr False
                       \<and> skip_overlap m (comps ! j) = Inr False
                       \<and> f_sub fa (c_x (comps ! i)) (c_x (comps ! i)) = Finite 0
                       \<and> f_sub fa (c_y (comps ! i)) (c_y (comps ! i)) = Finite 0
                       \<and> f_pow fa (Finite 0) 2 = Inr (Finite 0)
                       \<and> f_add fa (Finite 0) (Finite 0) = Finite 0
                       \<and> f_pow fa (Finite 0) (1 / 2) = Inr (Finite 0)
                     \<longrightarrow> (c_id (comps ! i), c_id (comps ! j), Finite 0) \<in> set ovs)"
    if ovs: "overlap_loop fa m comps [] = Inr ovs" for ovs
  proof -
    have ret: "fst (validate fa pf conv w) = Inr ()"
      unfolding run(1) [OF ovs] by simp
    have reported: "\<forall>ov. WarnOverlaps ov
                        \<in> set (drop (length (stdout w)) (stdout (snd (validate fa pf conv w))))
                      \<longleftrightarrow> ov \<noteq> [] \<and> ov = ovs"
      unfolding run(1) [OF ovs] by auto
    have members: "\<forall>t. t \<in> set ovs \<longleftrightarrow>
                    (\<exists>i j d. i < j \<and> j < length comps
                       \<and> skip_overlap m (comps ! i) = Inr False
                       \<and> skip_overlap m (comps ! j) = Inr False
                       \<and> distance fa (comps ! i) (comps ! j) = Inr d \<and> py_lt d 2
                       \<and> t = (c_id (comps ! i), c_id (comps ! j), d))"
    proof (intro allI iffI)
      fix t assume "t \<in> set ovs"
      then obtain xs c1 ys c2 zs d where dec: "comps = xs @ c1 # ys @ c2 # zs"
        and g: "skip_overlap m c1 = Inr False" "skip_overlap m c2 = Inr False"
          "distance fa c1 c2 = Inr d" "py_lt d 2" "t = (c_id c1, c_id c2, d)"
        using overlap_loop_sound [OF ovs, of t] by auto
      obtain i j where "i < j" "j < length comps" "comps ! i = c1" "comps ! j = c2"
        using decomposition_nth_pair [OF dec] by blast
      then show "\<exists>i j d. i < j \<and> j < length comps
                       \<and> skip_overlap m (comps ! i) = Inr False
                       \<and> skip_overlap m (comps ! j) = Inr False
                       \<and> distance fa (comps ! i) (comps ! j) = Inr d \<and> py_lt d 2
                       \<and> t = (c_id (comps ! i), c_id (comps ! j), d)"
        using g by blast
    next
      fix t assume "\<exists>i j d. i < j \<and> j < length comps
                       \<and> skip_overlap m (comps ! i) = Inr False
                       \<and> skip_overlap m (comps ! j) = Inr False
                       \<and> distance fa (comps ! i) (comps ! j) = Inr d \<and> py_lt d 2
                       \<and> t = (c_id (comps ! i), c_id (comps ! j), d)"
      then obtain i j d where ij: "i < j" "j < length comps"
        and g: "skip_overlap m (comps ! i) = Inr False" "skip_overlap m (comps ! j) = Inr False"
          "distance fa (comps ! i) (comps ! j) = Inr d" "py_lt d 2"
        and t: "t = (c_id (comps ! i), c_id (comps ! j), d)"
        by blast
      obtain xs ys zs where "comps = xs @ comps ! i # ys @ comps ! j # zs"
        using nth_pair_decomposition [OF ij] by blast
      from overlap_loop_complete [OF ovs this g] show "t \<in> set ovs"
        unfolding t .
    qed
    have near: "\<forall>t \<in> set ovs. py_lt (snd (snd t)) 2"
      using members by auto
    have coincide: "\<forall>i j. i < j \<and> j < length comps
                       \<and> c_x (comps ! i) = c_x (comps ! j) \<and> c_y (comps ! i) = c_y (comps ! j)
                       \<and> skip_overlap m (comps ! i) = Inr False
                       \<and> skip_overlap m (comps ! j) = Inr False
                       \<and> f_sub fa (c_x (comps ! i)) (c_x (comps ! i)) = Finite 0
                       \<and> f_sub fa (c_y (comps ! i)) (c_y (comps ! i)) = Finite 0
                       \<and> f_pow fa (Finite 0) 2 = Inr (Finite 0)
                       \<and> f_add fa (Finite 0) (Finite 0) = Finite 0
                       \<and> f_pow fa (Finite 0) (1 / 2) = Inr (Finite 0)
                     \<longrightarrow> (c_id (comps ! i), c_id (comps ! j), Finite 0) \<in> set ovs"
    proof (intro allI impI, elim conjE)
      fix i j
      assume ij: "i < j" "j < length comps"
        and pos: "c_x (comps ! i) = c_x (comps ! j)" "c_y (comps ! i) = c_y (comps ! j)"
        and g: "skip_overlap m (comps ! i) = Inr False" "skip_overlap m (comps ! j) = Inr False"
        and z: "f_sub fa (c_x (comps ! i)) (c_x (comps ! i)) = Finite 0"
          "f_sub fa (c_y (comps ! i)) (c_y (comps ! i)) = Finite 0"
          "f_pow fa (Finite 0) 2 = Inr (Finite 0)"
          "f_add fa (Finite 0) (Finite 0) = Finite 0"
          "f_pow fa (Finite 0) (1 / 2) = Inr (Finite 0)"
      have d: "distance fa (comps ! i) (comps ! j) = Inr (Finite 0)"
        using distance_coincide [OF pos z] .
      have lt: "py_lt (Finite 0) 2" by simp
      obtain xs ys zs where "comps = xs @ comps ! i # ys @ comps ! j # zs"
        using nth_pair_decomposition [OF ij] by blast
      from overlap_loop_complete [OF ovs this g d lt]
      show "(c_id (comps ! i), c_id (comps ! j), Finite 0) \<in> set ovs" .
    qed
    show ?thesis
      by (intro conjI ret reported members near coincide)
  qed
  show ?thesis
    by (intro conjI returns raises allI impI returned)
qed

theorem validate_reports_overlaps_witness:
  "overlap_loop
     \<lparr>f_sub = \<lambda>x y. Finite (x - y),
       f_add = \<lambda>u v. (case u of Finite a \<Rightarrow> (case v of Finite b \<Rightarrow> Finite (a + b) | _ \<Rightarrow> v) | _ \<Rightarrow> u),
       f_pow = \<lambda>u p. (case u of Finite a \<Rightarrow> Inr (Finite (a powr p)) | _ \<Rightarrow> Inr u)\<rparr>
     \<lparr>mapping_file = ''component_mapping.json'',
       mapping = JObj [(''knob_size'', JObj [(''type'', JStr ''OccultKnob'')]),
       (''knob_pan'', JObj [(''type'', JStr ''OccultKnob'')])],
       config = JObj []\<rparr>
     [\<lparr>c_id = ''knob_size'', c_type = ''circle'', c_x = 10, c_y = 20, c_width = 0, c_height = 0,
        c_radius = 0, c_label = [], c_section = []\<rparr>,
       \<lparr>c_id = ''knob_pan'', c_type = ''circle'', c_x = 10, c_y = 20, c_width = 0, c_height = 0,
        c_radius = 0, c_label = [], c_section = []\<rparr>]
     [] = Inr [(''knob_size'', ''knob_pan'', Finite 0)]
   \<and> stdout (snd (validate
     \<lparr>f_sub = \<lambda>x y. Finite (x - y),
       f_add = \<lambda>u v. (case u of Finite a \<Rightarrow> (case v of Finite b \<Rightarrow> Finite (a + b) | _ \<Rightarrow> v) | _ \<Rightarrow> u),
       f_pow = \<lambda>u p. (case u of Finite a \<Rightarrow> Inr (Finite (a powr p)) | _ \<Rightarrow> Inr u)\<rparr>
     [''10'' \<mapsto> 10, ''20'' \<mapsto> 20]
     \<lparr>svg_path = ''SR.svg'', mapping_path = ''component_mapping.json'', output_dir = ''generated'',
      parser = \<lparr>p_svg_path = ''SR.svg'',
                p_doc = Element ''{http://www.w3.org/2000/svg}svg'' []
                  [Element ''{http://www.w3.org/2000/svg}circle''
                     [(''id'', ''knob_size''), (''cx'', ''10''), (''cy'', ''20'')] [],
                   Element ''{http://www.w3.org/2000/svg}circle''
                     [(''id'', ''knob_pan''), (''cx'', ''10''), (''cy'', ''20'')] []]\<rparr>,
      mapper = \<lparr>mapping_file = ''component_mapping.json'', mapping = JObj [], config = JObj []\<rparr>,
      converter = \<lparr>svg_width_mm = 225, svg_height_mm = 190, juce_width_px = 850,
                   juce_height_px = 720, scale_x = 34 / 9, scale_y = 72 / 19\<rparr>\<rparr>
     \<lparr>files = [''component_mapping.json'' \<mapsto>
                 JsonFile (JObj [(''config'', JObj []),
                   (''components'', JObj [(''knob_size'', JObj [(''type'', JStr ''OccultKnob'')]),
       (''knob_pan'', JObj [(''type'', JStr ''OccultKnob'')])])])],
      stdout = []\<rparr>))
   = [Parsing ''SR.svg'', Found 2, WarnOverlaps [(''knob_size'', ''knob_pan'', Finite 0)],
      ValidationComplete 1]"
proof -
  have run: "stdout (snd (validate
     \<lparr>f_sub = \<lambda>x y. Finite (x - y),
       f_add = \<lambda>u v. (case u of Finite a \<Rightarrow> (case v of Finite b \<Rightarrow> Finite (a + b) | _ \<Rightarrow> v) | _ \<Rightarrow> u),
       f_pow = \<lambda>u p. (case u of Finite a \<Rightarrow> Inr (Finite (a powr p)) | _ \<Rightarrow> Inr u)\<rparr>
     [''10'' \<mapsto> 10, ''20'' \<mapsto> 20]
     \<lparr>svg_path = ''SR.svg'', mapping_path = ''component_mapping.json'', output_dir = ''generated'',
      parser = \<lparr>p_svg_path = ''SR.svg'',
                p_doc = Element ''{http://www.w3.org/2000/svg}svg'' []
                  [Element ''{http://www.w3.org/2000/svg}circle''
                     [(''id'', ''knob_size''), (''cx'', ''10''), (''cy'', ''20'')] [],
                   Element ''{http://www.w3.org/2000/svg}circle''
                     [(''id'', ''knob_pan''), (''cx'', ''10''), (''cy'', ''20'')] []]\<rparr>,
      mapper = \<lparr>mapping_file = ''component_mapping.json'', mapping = JObj [], config = JObj []\<rparr>,
      converter = \<lparr>svg_width_mm = 225, svg_height_mm = 190, juce_width_px = 850,
                   juce_height_px = 720, scale_x = 34 / 9, scale_y = 72 / 19\<rparr>\<rparr>
     \<lparr>files = [''component_mapping.json'' \<mapsto>
                 JsonFile (JObj [(''config'', JObj []),
                   (''components'', JObj [(''knob_size'', JObj [(''type'', JStr ''OccultKnob'')]),
       (''knob_pan'', JObj [(''type'', JStr ''OccultKnob'')])])])],
      stdout = []\<rparr>))
   = [Parsing ''SR.svg'', Found 2, WarnOverlaps [(''knob_size'', ''knob_pan'', Finite 0)],
      ValidationComplete 1]"
    by (simp add: run_defs)
  have loop: "overlap_loop
     \<lparr>f_sub = \<lambda>x y. Finite (x - y),
       f_add = \<lambda>u v. (case u of Finite a \<Rightarrow> (case v of Finite b \<Rightarrow> Finite (a + b) | _ \<Rightarrow> v) | _ \<Rightarrow> u),
       f_pow = \<lambda>u p. (case u of Finite a \<Rightarrow> Inr (Finite (a powr p)) | _ \<Rightarrow> Inr u)\<rparr>
     \<lparr>mapping_file = ''component_mapping.json'',
       mapping = JObj [(''knob_size'', JObj [(''type'', JStr ''OccultKnob'')]),
       (''knob_pan'', JObj [(''type'', JStr ''OccultKnob'')])],
       config = JObj []\<rparr>
     [\<lparr>c_id = ''knob_size'', c_type = ''circle'', c_x = 10, c_y = 20, c_width = 0, c_height = 0,
        c_radius = 0, c_label = [], c_section = []\<rparr>,
       \<lparr>c_id = ''knob_pan'', c_type = ''circle'', c_x = 10, c_y = 20, c_width = 0, c_height = 0,
        c_radius = 0, c_label = [], c_section = []\<rparr>]
     [] = Inr [(''knob_size'', ''knob_pan'', Finite 0)]"
    by (simp add: run_defs)
  show ?thesis
    using validate_reports_overlaps [of
     "\<lparr>files = [''component_mapping.json'' \<mapsto>
                 JsonFile (JObj [(''config'', JObj []),
                   (''components'', JObj [(''knob_size'', JObj [(''type'', JStr ''OccultKnob'')]),
       (''knob_pan'', JObj [(''type'', JStr ''OccultKnob'')])])])],
      stdout = []\<rparr>"
     "\<lparr>svg_path = ''SR.svg'', mapping_path = ''component_mapping.json'', output_dir = ''generated'',
      parser = \<lparr>p_svg_path = ''SR.svg'',
                p_doc = Element ''{http://www.w3.org/2000/svg}svg'' []
                  [Element ''{http://www.w3.org/2000/svg}circle''
                     [(''id'', ''knob_size''), (''cx'', ''10''), (''cy'', ''20'')] [],
                   Element ''{http://www.w3.org/2000/svg}circle''
                     [(''id'', ''knob_pan''), (''cx'', ''10''), (''cy'', ''20'')] []]\<rparr>,
      mapper = \<lparr>mapping_file = ''component_mapping.json'', mapping = JObj [], config = JObj []\<rparr>,
      converter = \<lparr>svg_width_mm = 225, svg_height_mm = 190, juce_width_px = 850,
                   juce_height_px = 720, scale_x = 34 / 9, scale_y = 72 / 19\<rparr>\<rparr>"
     "\<lparr>mapping_file = ''component_mapping.json'',
       mapping = JObj [(''knob_size'', JObj [(''type'', JStr ''OccultKnob'')]),
       (''knob_pan'', JObj [(''type'', JStr ''OccultKnob'')])],
       config = JObj []\<rparr>"
     "[(''knob_size'', JObj [(''type'', JStr ''OccultKnob'')]),
       (''knob_pan'', JObj [(''type'', JStr ''OccultKnob'')])]"
     "[''10'' \<mapsto> 10, ''20'' \<mapsto> 20]"
     "[\<lparr>c_id = ''knob_size'', c_type = ''circle'', c_x = 10, c_y = 20, c_width = 0, c_height = 0,
        c_radius = 0, c_label = [], c_section = []\<rparr>,
       \<lparr>c_id = ''knob_pan'', c_type = ''circle'', c_x = 10, c_y = 20, c_width = 0, c_height = 0,
        c_radius = 0, c_label = [], c_section = []\<rparr>]"
     "\<lparr>f_sub = \<lambda>x y. Finite (x - y),
       f_add = \<lambda>u v. (case u of Finite a \<Rightarrow> (case v of Finite b \<Rightarrow> Finite (a + b) | _ \<Rightarrow> v) | _ \<Rightarrow> u),
       f_pow = \<lambda>u p. (case u of Finite a \<Rightarrow> Inr (Finite (a powr p)) | _ \<Rightarrow> Inr u)\<rparr>"] run loop
    by blast
qed

theorem coinciding_unmapped_counterexample:
  "parse [''10'' \<mapsto> 10, ''20'' \<mapsto> 20]
     (Element ''{http://www.w3.org/2000/svg}svg'' []
                  [Element ''{http://www.w3.org/2000/svg}circle''
                     [(''id'', ''knob_size''), (''cx'', ''10''), (''cy'', ''20'')] [],
                   Element ''{http://www.w3.org/2000/svg}rect''
                     [(''id'', ''load_btn''), (''x'', ''10''), (''y'', ''20'')] []])
   = Inr [\<lparr>c_id = ''knob_size'', c_type = ''circle'', c_x = 10, c_y = 20, c_width = 0, c_height = 0,
        c_radius = 0, c_label = [], c_section = []\<rparr>,
       \<lparr>c_id = ''load_btn'', c_type = ''rect'', c_x = 10, c_y = 20, c_width = 0, c_height = 0,
        c_radius = 0, c_label = [], c_section = []\<rparr>]
   \<and> stdout (snd (validate
     \<lparr>f_sub = \<lambda>x y. Finite (x - y),
       f_add = \<lambda>u v. (case u of Finite a \<Rightarrow> (case v of Finite b \<Rightarrow> Finite (a + b) | _ \<Rightarrow> v) | _ \<Rightarrow> u),
       f_pow = \<lambda>u p. (case u of Finite a \<Rightarrow> Inr (Finite (a powr p)) | _ \<Rightarrow> Inr u)\<rparr>
     [''10'' \<mapsto> 10, ''20'' \<mapsto> 20]
     \<lparr>svg_path = ''SR.svg'', mapping_path = ''component_mapping.json'', output_dir = ''generated'',
      parser = \<lparr>p_svg_path = ''SR.svg'',
                p_doc = Element ''{http://www.w3.org/2000/svg}svg'' []
                  [Element ''{http://www.w3.org/2000/svg}circle''
                     [(''id'', ''knob_size''), (''cx'', ''10''), (''cy'', ''20'')] [],
                   Element ''{http://www.w3.org/2000/svg}rect''
                     [(''id'', ''load_btn''), (''x'', ''10''), (''y'', ''20'')] []]\<rparr>,
      mapper = \<lparr>mapping_file = ''component_mapping.json'', mapping = JObj [], config = JObj []\<rparr>,
      converter = \<lparr>svg_width_mm = 225, svg_height_mm = 190, juce_width_px = 850,
                   juce_height_px = 720, scale_x = 34 / 9, scale_y = 72 / 19\<rparr>\<rparr>
     \<lparr>files = [''component_mapping.json'' \<mapsto>
                 JsonFile (JObj [(''config'', JObj []),
                   (''components'', JObj [(''knob_size'', JObj [(''type'', JStr ''OccultKnob'')])])])],
      stdout = []\<rparr>))
   = [Parsing ''SR.svg'', Found 2, WarnUnmapped [''load_btn''], ValidationComplete 1]"
  by (simp add: run_defs)

subsection \<open>The command line\<close>

lemma validate_no_mapping:
  assumes "files w (mapping_file (mapper conv)) = None" and "\<not> truthy (mapping (mapper conv))"
  shows "validate fa pf conv w = (Inr (), say ErrNoMapping w)"
  using assms by (simp add: validate_def load_def)

lemma generate_code_no_mapping:
  assumes "files w (mapping_file (mapper conv)) = None" and "\<not> truthy (mapping (mapper conv))"
  shows "generate_code pf snippets conv dry_run w = (Inr (), say ErrNoMapping w)"
  using assms by (simp add: generate_code_def load_def)

lemma converter_init:
  assumes "files w svg = Some (XmlFile doc)"
  shows "\<exists>conv. SVGToJUCEConverter_init svg mp out w = Inr conv
          \<and> mapper conv = ComponentMapper_init mp"
  using assms
  by (simp add: SVGToJUCEConverter_init_def SVGParser_init_def CoordinateConverter_init_def)

text \<open>
  Claim C7. When the drawing exists and the mapping file does not, a run in validation,
  preview or generation mode prints the error message about the missing mapping and returns:
  nothing else is printed and no file is written or changed.
\<close>

theorem missing_mapping_aborts:
  assumes svg: "files w (script_dir @ ''/SR.svg'') = Some (XmlFile doc)"
      and nomap: "files w (script_dir @ ''/component_mapping.json'') = None"
      and mode: "\<not> arg_init a"
  shows "main fa pf suggest snippets script_dir a w = (Returned, say ErrNoMapping w)
         \<and> stdout (snd (main fa pf suggest snippets script_dir a w)) = stdout w @ [ErrNoMapping]
         \<and> files (snd (main fa pf suggest snippets script_dir a w)) = files w"
proof -
  obtain conv where conv:
    "SVGToJUCEConverter_init (script_dir @ ''/SR.svg'') (script_dir @ ''/component_mapping.json'')
       (script_dir @ ''/generated'') w = Inr conv"
    and m: "mapper conv = ComponentMapper_init (script_dir @ ''/component_mapping.json'')"
    using converter_init [OF svg] by blast
  have absent: "files w (mapping_file (mapper conv)) = None"
    using nomap by (simp add: m ComponentMapper_init_def)
  have empty: "\<not> truthy (mapping (mapper conv))"
    by (simp add: m ComponentMapper_init_def)
  have "main fa pf suggest snippets script_dir a w = (Returned, say ErrNoMapping w)"
    using svg mode
    by (simp add: main_def Let_def conv finish_def validate_no_mapping [OF absent empty]
        generate_code_no_mapping [OF absent empty])
  then show ?thesis by (simp add: say_def)
qed

theorem missing_mapping_aborts_witness:
  "main
     \<lparr>f_sub = \<lambda>x y. Finite (x - y),
       f_add = \<lambda>u v. (case u of Finite a \<Rightarrow> (case v of Finite b \<Rightarrow> Finite (a + b) | _ \<Rightarrow> v) | _ \<Rightarrow> u),
       f_pow = \<lambda>u p. (case u of Finite a \<Rightarrow> Inr (Finite (a powr p)) | _ \<Rightarrow> Inr u)\<rparr>
     [''10'' \<mapsto> 10] (\<lambda>c. JObj []) (\<lambda>cs m cv. Inr (''h'', ''c'', ''r'')) ''/plugin''
     \<lparr>arg_init = False, arg_dry_run = False, arg_validate = False\<rparr>
     \<lparr>files = [''/plugin/SR.svg'' \<mapsto> XmlFile (Element ''{http://www.w3.org/2000/svg}svg'' []
                  [Element ''{http://www.w3.org/2000/svg}circle'' [(''id'', ''knob_size'')] []])],
      stdout = []\<rparr>
   = (Returned,
      \<lparr>files = [''/plugin/SR.svg'' \<mapsto> XmlFile (Element ''{http://www.w3.org/2000/svg}svg'' []
                  [Element ''{http://www.w3.org/2000/svg}circle'' [(''id'', ''knob_size'')] []])],
       stdout = [ErrNoMapping]\<rparr>)"
  using missing_mapping_aborts [of
     "\<lparr>files = [''/plugin/SR.svg'' \<mapsto> XmlFile (Element ''{http://www.w3.org/2000/svg}svg'' []
                  [Element ''{http://www.w3.org/2000/svg}circle'' [(''id'', ''knob_size'')] []])],
      stdout = []\<rparr>"
     "''/plugin''"
     "Element ''{http://www.w3.org/2000/svg}svg'' []
                  [Element ''{http://www.w3.org/2000/svg}circle'' [(''id'', ''knob_size'')] []]"
     "\<lparr>arg_init = False, arg_dry_run = False, arg_validate = False\<rparr>"
     "\<lparr>f_sub = \<lambda>x y. Finite (x - y),
       f_add = \<lambda>u v. (case u of Finite a \<Rightarrow> (case v of Finite b \<Rightarrow> Finite (a + b) | _ \<Rightarrow> v) | _ \<Rightarrow> u),
       f_pow = \<lambda>u p. (case u of Finite a \<Rightarrow> Inr (Finite (a powr p)) | _ \<Rightarrow> Inr u)\<rparr>"
     "[''10'' \<mapsto> 10]" "\<lambda>c. JObj []" "\<lambda>cs m cv. Inr (''h'', ''c'', ''r'')"]
  by (simp add: say_def)

text \<open>
  Claim C8. When the drawing file does not exist, \<^verbatim>\<open>main\<close> prints the error message and
  ends with \<^verbatim>\<open>sys.exit(1)\<close>, whatever the mode: the exit status is not zero, no converter
  is built, no mode runs and no file is written.
\<close>

theorem missing_drawing_exits:
  assumes "files w (script_dir @ ''/SR.svg'') = None"
  shows "main fa pf suggest snippets script_dir a w
           = (SysExit 1, say (ErrSvgNotFound (script_dir @ ''/SR.svg'')) w)
         \<and> exit_status (fst (main fa pf suggest snippets script_dir a w)) \<noteq> 0
         \<and> files (snd (main fa pf suggest snippets script_dir a w)) = files w"
  using assms by (simp add: main_def Let_def say_def)

theorem missing_drawing_exits_witness:
  "main
     \<lparr>f_sub = \<lambda>x y. Finite (x - y),
       f_add = \<lambda>u v. (case u of Finite a \<Rightarrow> (case v of Finite b \<Rightarrow> Finite (a + b) | _ \<Rightarrow> v) | _ \<Rightarrow> u),
       f_pow = \<lambda>u p. (case u of Finite a \<Rightarrow> Inr (Finite (a powr p)) | _ \<Rightarrow> Inr u)\<rparr>
     Map.empty (\<lambda>c. JObj []) (\<lambda>cs m cv. Inr (''h'', ''c'', ''r'')) ''/plugin''
     \<lparr>arg_init = True, arg_dry_run = False, arg_validate = False\<rparr>
     \<lparr>files = [''/plugin/component_mapping.json'' \<mapsto> JsonFile (JObj [])], stdout = []\<rparr>
   = (SysExit 1,
      \<lparr>files = [''/plugin/component_mapping.json'' \<mapsto> JsonFile (JObj [])],
       stdout = [ErrSvgNotFound ''/plugin/SR.svg'']\<rparr>)"
  using missing_drawing_exits [of
     "\<lparr>files = [''/plugin/component_mapping.json'' \<mapsto> JsonFile (JObj [])], stdout = []\<rparr>"
     "''/plugin''"
     "\<lparr>f_sub = \<lambda>x y. Finite (x - y),
       f_add = \<lambda>u v. (case u of Finite a \<Rightarrow> (case v of Finite b \<Rightarrow> Finite (a + b) | _ \<Rightarrow> v) | _ \<Rightarrow> u),
       f_pow = \<lambda>u p. (case u of Finite a \<Rightarrow> Inr (Finite (a powr p)) | _ \<Rightarrow> Inr u)\<rparr>"
     Map.empty "\<lambda>c. JObj []" "\<lambda>cs m cv. Inr (''h'', ''c'', ''r'')"
     "\<lparr>arg_init = True, arg_dry_run = False, arg_validate = False\<rparr>"]
  by (simp add: say_def)

end
